theory Spec2Isabelle
  imports Main "HOL-Library.AList" "HOL-Library.Sublist"
begin

section \<open>Common values\<close>

text \<open>
  Python values of type \<open>Any\<close> or \<open>Dict[str, Any]\<close> that travel through the code
  (tool arguments, JSON-RPC results, event payloads) are JSON values. A dict is an
  association list in insertion order. Floating-point numbers are left out.
\<close>

datatype json =
    JNull
  | JBool bool
  | JInt int
  | JStr string
  | JArr "json list"
  | JObj "(string \<times> json) list"

text \<open>An optional string as a payload value: \<open>None\<close> is JSON null.\<close>

definition opt_str :: "string option \<Rightarrow> json" where
  "opt_str x = (case x of None \<Rightarrow> JNull | Some s \<Rightarrow> JStr s)"

text \<open>\<open>app/services/llm/base.py\<close>: \<open>ToolUse\<close> and \<open>ToolResult\<close> (imported as \<open>LLMToolResult\<close>).\<close>

record ToolUse =
  tu_id :: string
  tu_name :: string
  tu_arguments :: json

record LLMToolResult =
  tool_use_id :: string
  content :: string
  is_error :: bool

text \<open>Python's truth value of a JSON value.\<close>

definition truthy :: "json \<Rightarrow> bool" where
  "truthy j =
     (case j of JNull \<Rightarrow> False | JBool b \<Rightarrow> b | JInt i \<Rightarrow> i \<noteq> 0 | JStr s \<Rightarrow> s \<noteq> []
      | JArr xs \<Rightarrow> xs \<noteq> [] | JObj kv \<Rightarrow> kv \<noteq> [])"


section \<open>Paths and the tool context\<close>

text \<open>
  \<open>pathlib.Path\<close> on POSIX: a path is absolute or relative and has a list of
  components. Parsing a string splits at \<open>/\<close> and drops empty and \<open>.\<close> components
  (\<open>..\<close> is kept). The root of exactly two slashes, which \<open>pathlib\<close> keeps apart, is
  the same as the root here: \<open>resolve()\<close> turns it into the single slash, and the
  functions below compare resolved paths only.
\<close>

datatype Path = Path (is_absolute: bool) (parts: "string list")

fun split_slash :: "string \<Rightarrow> string \<Rightarrow> string list" where
  "split_slash cur [] = [rev cur]"
| "split_slash cur (c # cs) =
     (if c = CHR ''/'' then rev cur # split_slash [] cs else split_slash (c # cur) cs)"

definition Path_of :: "string \<Rightarrow> Path" where
  "Path_of s =
     Path (case s of [] \<Rightarrow> False | c # _ \<Rightarrow> c = CHR ''/'')
          (filter (\<lambda>p. p \<noteq> [] \<and> p \<noteq> ''.'') (split_slash [] s))"

text \<open>The \<open>/\<close> operator: an absolute right operand replaces the left one.\<close>

definition joinpath :: "Path \<Rightarrow> Path \<Rightarrow> Path" where
  "joinpath a b = (if is_absolute b then b else Path (is_absolute a) (parts a @ parts b))"

text \<open>\<open>PurePath.is_relative_to\<close>: containment by components, never by characters.\<close>

definition is_relative_to :: "Path \<Rightarrow> Path \<Rightarrow> bool" where
  "is_relative_to p other = (is_absolute p = is_absolute other \<and> prefix (parts other) (parts p))"

fun join_slash :: "string list \<Rightarrow> string" where
  "join_slash [] = []"
| "join_slash [p] = p"
| "join_slash (p # q # ps) = p @ ''/'' @ join_slash (q # ps)"

definition str_path :: "Path \<Rightarrow> string" where
  "str_path p =
     (if is_absolute p then ''/'' @ join_slash (parts p)
      else if parts p = [] then ''.'' else join_slash (parts p))"

text \<open>
  \<open>Path.resolve()\<close> asks the operating system (working directory, symbolic links), so
  the functions below take it as the parameter \<open>resolve\<close>; it returns the resolved path
  or raises, and \<open>Inl\<close> carries the text of the exception. On a file system without
  symbolic links it is \<open>lexical_resolve cwd\<close>: make the path absolute from the working
  directory \<open>cwd\<close>, then remove \<open>.\<close> and resolve \<open>..\<close> against the components before
  it (\<open>..\<close> at the root stays at the root). A component with a NUL character makes the
  \<open>lstat\<close> call of \<open>os.path.realpath\<close> raise \<open>ValueError\<close>.
\<close>

fun normalise :: "string list \<Rightarrow> string list \<Rightarrow> string list" where
  "normalise acc [] = rev acc"
| "normalise acc (p # ps) =
     (if p = [] \<or> p = ''.'' then normalise acc ps
      else if p = ''..'' then normalise (tl acc) ps
      else normalise (p # acc) ps)"

definition lexical_resolve :: "string list \<Rightarrow> Path \<Rightarrow> string + Path" where
  "lexical_resolve cwd p =
     (let full = (if is_absolute p then parts p else cwd @ parts p)
      in if list_ex (\<lambda>c. CHR 0x00 \<in> set c) full then Inl ''embedded null byte''
         else Inr (Path True (normalise [] full)))"


text \<open>\<open>app/tools/base.py\<close>: \<open>ToolContext\<close>.\<close>

record ToolContext =
  workspace_path :: Path
  ctx_session_id :: string
  ctx_user_id :: "string option"
  allowed_paths :: "Path list"
  environment :: "(string \<times> string) list"
  timeout :: int

text \<open>The loop of \<open>is_path_allowed\<close> over the allow-listed roots.\<close>

fun allowed_loop :: "(Path \<Rightarrow> string + Path) \<Rightarrow> Path \<Rightarrow> Path list \<Rightarrow> string + bool" where
  "allowed_loop resolve resolved [] = Inr False"
| "allowed_loop resolve resolved (allowed # rest) =
     (case resolve allowed of
        Inl e \<Rightarrow> Inl e
      | Inr root \<Rightarrow>
          if is_relative_to resolved root then Inr True else allowed_loop resolve resolved rest)"

definition is_path_allowed ::
  "(Path \<Rightarrow> string + Path) \<Rightarrow> ToolContext \<Rightarrow> Path \<Rightarrow> string + bool" where
  "is_path_allowed resolve ctx path =
     (case resolve path of
        Inl e \<Rightarrow> Inl e
      | Inr resolved \<Rightarrow>
          (case resolve (workspace_path ctx) of
             Inl e \<Rightarrow> Inl e
           | Inr root \<Rightarrow>
               if is_relative_to resolved root then Inr True
               else allowed_loop resolve resolved (allowed_paths ctx)))"

text \<open>
  \<open>resolve_path\<close> raises \<open>ValueError\<close> with a message, or what \<open>resolve\<close> raises; \<open>Inl\<close>
  carries the text of the exception.
\<close>

definition resolve_path ::
  "(Path \<Rightarrow> string + Path) \<Rightarrow> ToolContext \<Rightarrow> string \<Rightarrow> string + Path" where
  "resolve_path resolve ctx path_str =
     (let path0 = Path_of path_str;
          path1 = (if \<not> is_absolute path0 then joinpath (workspace_path ctx) path0 else path0)
      in case resolve path1 of
           Inl e \<Rightarrow> Inl e
         | Inr path \<Rightarrow>
             (case is_path_allowed resolve ctx path of
                Inl e \<Rightarrow> Inl e
              | Inr ok \<Rightarrow>
                  if \<not> ok
                  then Inl (''Path '' @ [CHR 0x27] @ str_path path @ [CHR 0x27]
                              @ '' is outside allowed boundaries'')
                  else Inr path))"


section \<open>Tools and the tool execution service\<close>

text \<open>\<open>app/tools/base.py\<close>: the result of running a tool.\<close>

record ToolResult =
  tr_success :: bool
  tr_output :: string
  tr_error :: "string option"
  tr_metadata :: "(string \<times> json) list"

definition success_result :: "string \<Rightarrow> (string \<times> json) list \<Rightarrow> ToolResult" where
  "success_result out md = \<lparr>tr_success = True, tr_output = out, tr_error = None, tr_metadata = md\<rparr>"

definition error_result :: "string \<Rightarrow> ToolResult" where
  "error_result err = \<lparr>tr_success = False, tr_output = [], tr_error = Some err, tr_metadata = []\<rparr>"

text \<open>
  \<open>Tool\<close> is an abstract class: a tool is its name, its permission flag and its two
  methods. Running a tool acts on the outside world \<open>'w\<close> (files, processes, network)
  and either returns a result or raises (\<open>Inl\<close> carries \<open>str(e)\<close>).
\<close>

record 'w Tool =
  t_name :: string
  requires_permission :: bool
  validate_arguments :: "json \<Rightarrow> string option"
  execute :: "json \<Rightarrow> ToolContext \<Rightarrow> 'w \<Rightarrow> (string + ToolResult) \<times> 'w"

text \<open>
  \<open>app/services/tool_execution_service.py\<close>. A callback or listener is a function on the
  outside world. \<open>created_at\<close> is a clock reading.
\<close>

record 'w PendingPermission =
  pp_id :: string
  pp_session_id :: string
  pp_tool_name :: string
  pp_arguments :: json
  pp_description :: string
  pp_created_at :: nat
  pp_callback :: "('w \<Rightarrow> 'w) option"

text \<open>
  \<open>_pending_permissions\<close> is a dict keyed by permission id, kept as an association list in
  insertion order: \<open>AList.update\<close> is \<open>d[k] = v\<close>, \<open>AList.delete\<close> removes a key.
\<close>

record 'w ToolExecutionService =
  svc_workspace_path :: Path
  svc_session_id :: string
  svc_user_id :: "string option"
  svc_allowed_paths :: "Path list"
  svc_environment :: "(string \<times> string) list"
  pending_permissions :: "(string \<times> 'w PendingPermission) list"
  approved_tools :: "string set"
  always_approved :: "string set"
  on_permission_request :: "('w PendingPermission \<Rightarrow> 'w \<Rightarrow> 'w) option"
  on_tool_start :: "(string \<Rightarrow> json \<Rightarrow> 'w \<Rightarrow> 'w) option"
  on_tool_complete :: "(string \<Rightarrow> ToolResult \<Rightarrow> 'w \<Rightarrow> 'w) option"

text \<open>
  What the service takes from its surroundings: the global tool registry (\<open>get_tool\<close>),
  \<open>uuid4\<close>, the clock, and Python's \<open>str()\<close> of a value.
\<close>

record 'w Runtime =
  get_tool :: "string \<Rightarrow> 'w Tool option"
  uuid4 :: "'w \<Rightarrow> string \<times> 'w"
  utcnow :: "'w \<Rightarrow> nat \<times> 'w"
  py_str :: "json \<Rightarrow> string"

definition get_tool_context :: "'w ToolExecutionService \<Rightarrow> ToolContext" where
  "get_tool_context svc =
     \<lparr>workspace_path = svc_workspace_path svc, ctx_session_id = svc_session_id svc,
      ctx_user_id = svc_user_id svc, allowed_paths = svc_allowed_paths svc,
      environment = svc_environment svc, timeout = 30\<rparr>"

definition needs_permission :: "'w ToolExecutionService \<Rightarrow> 'w Tool \<Rightarrow> json \<Rightarrow> bool" where
  "needs_permission svc tool arguments =
     (if \<not> requires_permission tool then False
      else if t_name tool \<in> always_approved svc then False
      else if t_name tool \<in> approved_tools svc then False
      else True)"

definition dict_get :: "json \<Rightarrow> string \<Rightarrow> json option" where
  "dict_get d k = (case d of JObj kvs \<Rightarrow> map_of kvs k | _ \<Rightarrow> None)"

text \<open>The text of an argument whose schema type is string.\<close>

definition arg_text :: "'w Runtime \<Rightarrow> json \<Rightarrow> string \<Rightarrow> string \<Rightarrow> string" where
  "arg_text rt d k dflt =
     (case dict_get d k of None \<Rightarrow> dflt | Some (JStr s) \<Rightarrow> s | Some v \<Rightarrow> py_str rt v)"

definition request_permission ::
  "'w Runtime \<Rightarrow> 'w ToolExecutionService \<Rightarrow> 'w Tool \<Rightarrow> json \<Rightarrow> 'w
     \<Rightarrow> 'w PendingPermission \<times> 'w ToolExecutionService \<times> 'w" where
  "request_permission rt svc tool arguments w =
     (let desc =
            (if t_name tool = ''bash''
             then ''Execute command: '' @ take 100 (arg_text rt arguments ''command'' [])
             else if t_name tool = ''write_file'' \<or> t_name tool = ''edit_file''
             then t_name tool @ '': '' @ arg_text rt arguments ''file_path'' ''unknown''
             else t_name tool @ '' with arguments: '' @ take 100 (py_str rt arguments));
          (new_id, w1) = uuid4 rt w;
          (now, w2) = utcnow rt w1;
          permission = \<lparr>pp_id = new_id, pp_session_id = svc_session_id svc,
                        pp_tool_name = t_name tool, pp_arguments = arguments,
                        pp_description = desc, pp_created_at = now, pp_callback = None\<rparr>;
          svc1 = svc\<lparr>pending_permissions :=
                      AList.update (pp_id permission) permission (pending_permissions svc)\<rparr>;
          w3 = (case on_permission_request svc of None \<Rightarrow> w2 | Some f \<Rightarrow> f permission w2)
      in (permission, svc1, w3))"

definition respond_permission ::
  "'w ToolExecutionService \<Rightarrow> string \<Rightarrow> bool \<Rightarrow> bool \<Rightarrow> 'w
     \<Rightarrow> bool \<times> 'w ToolExecutionService \<times> 'w" where
  "respond_permission svc permission_id approved always w =
     (case map_of (pending_permissions svc) permission_id of
        None \<Rightarrow> (False, svc, w)
      | Some permission \<Rightarrow>
          (let svc1 = svc\<lparr>pending_permissions :=
                           AList.delete permission_id (pending_permissions svc)\<rparr>
           in if approved then
                (let svc2 =
                       (if always
                        then svc1\<lparr>always_approved :=
                                    insert (pp_tool_name permission) (always_approved svc1)\<rparr>
                        else svc1\<lparr>approved_tools :=
                                    insert (pp_tool_name permission) (approved_tools svc1)\<rparr>);
                     w1 = (case pp_callback permission of None \<Rightarrow> w | Some f \<Rightarrow> f w)
                 in (True, svc2, w1))
              else (True, svc1, w)))"

definition get_pending_permissions :: "'w ToolExecutionService \<Rightarrow> 'w PendingPermission list" where
  "get_pending_permissions svc = map snd (pending_permissions svc)"

definition llm_result :: "string \<Rightarrow> string \<Rightarrow> bool \<Rightarrow> LLMToolResult" where
  "llm_result i c e = \<lparr>tool_use_id = i, content = c, is_error = e\<rparr>"

definition execute_tool ::
  "'w Runtime \<Rightarrow> 'w ToolExecutionService \<Rightarrow> ToolUse \<Rightarrow> bool \<Rightarrow> 'w
     \<Rightarrow> LLMToolResult \<times> 'w ToolExecutionService \<times> 'w" where
  "execute_tool rt svc tool_use skip_permission w =
     (case get_tool rt (tu_name tool_use) of
        None \<Rightarrow>
          (llm_result (tu_id tool_use)
             (''Error: Unknown tool '' @ [CHR 0x27] @ tu_name tool_use @ [CHR 0x27]) True, svc, w)
      | Some tool \<Rightarrow>
          (let validation_error = validate_arguments tool (tu_arguments tool_use)
           in if validation_error \<noteq> None \<and> validation_error \<noteq> Some []
              then (llm_result (tu_id tool_use)
                      (''Error: '' @ (case validation_error of Some e \<Rightarrow> e | None \<Rightarrow> [])) True,
                    svc, w)
              else if \<not> skip_permission \<and> needs_permission svc tool (tu_arguments tool_use)
              then (let (permission, svc1, w1) =
                          request_permission rt svc tool (tu_arguments tool_use) w
                    in (llm_result (tu_id tool_use)
                          (''Permission required for '' @ t_name tool @ ''. Request ID: ''
                             @ pp_id permission) True,
                        svc1, w1))
              else
                (let w1 = (case on_tool_start svc of None \<Rightarrow> w
                           | Some f \<Rightarrow> f (tu_name tool_use) (tu_arguments tool_use) w);
                     (res, w2) = execute tool (tu_arguments tool_use) (get_tool_context svc) w1;
                     result = (case res of Inl e \<Rightarrow> error_result (''Execution error: '' @ e)
                               | Inr r \<Rightarrow> r);
                     w3 = (case on_tool_complete svc of None \<Rightarrow> w2
                           | Some f \<Rightarrow> f (tu_name tool_use) result w2)
                 in if tr_success result
                    then (llm_result (tu_id tool_use) (tr_output result) False, svc, w3)
                    else (llm_result (tu_id tool_use)
                            (case tr_error result of None \<Rightarrow> ''Unknown error''
                             | Some e \<Rightarrow> if e = [] then ''Unknown error'' else e) True,
                          svc, w3))))"

text \<open>
  \<open>execute_tools\<close> runs the tool uses one after the other when its flag \<open>parallel\<close> is false and
  gathers one task per tool use otherwise. The tasks are started in list order and the
  results are returned in list order; the interleaving of tool bodies at their
  suspension points is not modelled, so both branches run the list in order.
\<close>

fun execute_tools_seq ::
  "'w Runtime \<Rightarrow> 'w ToolExecutionService \<Rightarrow> ToolUse list \<Rightarrow> 'w
     \<Rightarrow> LLMToolResult list \<times> 'w ToolExecutionService \<times> 'w" where
  "execute_tools_seq rt svc [] w = ([], svc, w)"
| "execute_tools_seq rt svc (tu # tus) w =
     (let (r, svc1, w1) = execute_tool rt svc tu False w;
          (rs, svc2, w2) = execute_tools_seq rt svc1 tus w1
      in (r # rs, svc2, w2))"

definition execute_tools ::
  "'w Runtime \<Rightarrow> 'w ToolExecutionService \<Rightarrow> ToolUse list \<Rightarrow> bool \<Rightarrow> 'w
     \<Rightarrow> LLMToolResult list \<times> 'w ToolExecutionService \<times> 'w" where
  "execute_tools rt svc tool_uses in_parallel w =
     (if in_parallel then execute_tools_seq rt svc tool_uses w
      else execute_tools_seq rt svc tool_uses w)"

section \<open>Conversation state\<close>

text \<open>
  \<open>app/services/conversation_service.py\<close>. Message ids come from \<open>uuid4\<close> and times from
  the clock; the functions that add a message take them as arguments.
\<close>

datatype MessageRole = SYSTEM | USER | ASSISTANT | TOOL

record ConversationMessage =
  msg_id :: string
  msg_role :: MessageRole
  msg_content :: string
  tool_uses :: "ToolUse list"
  tool_results :: "LLMToolResult list"
  tokens_used :: "int option"
  msg_created_at :: nat
  msg_metadata :: "(string \<times> json) list"

record Conversation =
  session_id :: string
  messages :: "ConversationMessage list"
  system_prompt :: "string option"
  model :: string
  provider_name :: string
  conv_created_at :: nat
  updated_at :: nat
  conv_metadata :: "(string \<times> json) list"
  total_input_tokens :: int
  total_output_tokens :: int

definition add_user_message ::
  "Conversation \<Rightarrow> string \<Rightarrow> nat \<Rightarrow> nat \<Rightarrow> string \<Rightarrow> Conversation" where
  "add_user_message conv new_id created now text =
     conv\<lparr>messages := messages conv @
              [\<lparr>msg_id = new_id, msg_role = USER, msg_content = text, tool_uses = [],
                tool_results = [], tokens_used = None, msg_created_at = created,
                msg_metadata = []\<rparr>],
          updated_at := now\<rparr>"

definition add_assistant_message ::
  "Conversation \<Rightarrow> string \<Rightarrow> nat \<Rightarrow> nat \<Rightarrow> string \<Rightarrow> ToolUse list option \<Rightarrow> int option
     \<Rightarrow> Conversation" where
  "add_assistant_message conv new_id created now text tus tokens =
     (let conv1 = conv\<lparr>messages := messages conv @
                     [\<lparr>msg_id = new_id, msg_role = ASSISTANT, msg_content = text,
                       tool_uses = (case tus of None \<Rightarrow> [] | Some l \<Rightarrow> l),
                       tool_results = [], tokens_used = tokens, msg_created_at = created,
                       msg_metadata = []\<rparr>],
                   updated_at := now\<rparr>
      in case tokens of
           None \<Rightarrow> conv1
         | Some n \<Rightarrow> if n \<noteq> 0 then conv1\<lparr>total_output_tokens := total_output_tokens conv1 + n\<rparr>
                     else conv1)"

definition add_tool_results ::
  "Conversation \<Rightarrow> string \<Rightarrow> nat \<Rightarrow> nat \<Rightarrow> LLMToolResult list \<Rightarrow> Conversation" where
  "add_tool_results conv new_id created now results =
     conv\<lparr>messages := messages conv @
              [\<lparr>msg_id = new_id, msg_role = USER, msg_content = [], tool_uses = [],
                tool_results = results, tokens_used = None, msg_created_at = created,
                msg_metadata = []\<rparr>],
          updated_at := now\<rparr>"

definition get_last_assistant_message :: "Conversation \<Rightarrow> ConversationMessage option" where
  "get_last_assistant_message conv = find (\<lambda>msg. msg_role msg = ASSISTANT) (rev (messages conv))"

text \<open>\<open>list.index\<close>: the position of the first element equal to \<open>x\<close>, if there is one.\<close>

fun list_index :: "'a list \<Rightarrow> 'a \<Rightarrow> nat option" where
  "list_index [] x = None"
| "list_index (y # ys) x =
     (if y = x then Some 0 else map_option Suc (list_index ys x))"

text \<open>\<open>Inl\<close> is the \<open>ValueError\<close> that \<open>list.index\<close> raises when the element is absent.\<close>

definition get_pending_tool_uses :: "Conversation \<Rightarrow> string + ToolUse list" where
  "get_pending_tool_uses conv =
     (case get_last_assistant_message conv of
        None \<Rightarrow> Inr []
      | Some last_assistant \<Rightarrow>
          if tool_uses last_assistant = [] then Inr []
          else (case list_index (messages conv) last_assistant of
                  None \<Rightarrow> Inl ''ValueError''
                | Some assistant_idx \<Rightarrow>
                    if list_ex (\<lambda>msg. tool_results msg \<noteq> [])
                         (drop (assistant_idx + 1) (messages conv))
                    then Inr []
                    else Inr (tool_uses last_assistant)))"

definition update_token_usage :: "Conversation \<Rightarrow> int \<Rightarrow> int \<Rightarrow> Conversation" where
  "update_token_usage conv input_tokens output_tokens =
     conv\<lparr>total_input_tokens := total_input_tokens conv + input_tokens,
          total_output_tokens := total_output_tokens conv + output_tokens\<rparr>"

section \<open>Streaming handler\<close>

text \<open>\<open>app/services/llm/base.py\<close>: the events a provider streams.\<close>

datatype StreamEventType =
    TEXT_DELTA | TOOL_USE_START | TOOL_USE_DELTA | TOOL_USE_END
  | MESSAGE_START | MESSAGE_DELTA | MESSAGE_END | ERROR

record StreamEvent =
  se_type :: StreamEventType
  se_text :: "string option"
  se_tool_use :: "ToolUse option"
  se_tool_use_id :: "string option"
  se_tool_name :: "string option"
  se_tool_input_delta :: "string option"
  se_error :: "string option"
  se_usage :: "(string \<times> int) list option"

text \<open>An event of the given type with every optional field \<open>None\<close>.\<close>

definition stream_ev :: "StreamEventType \<Rightarrow> StreamEvent" where
  "stream_ev ty =
     \<lparr>se_type = ty, se_text = None, se_tool_use = None, se_tool_use_id = None,
      se_tool_name = None, se_tool_input_delta = None, se_error = None, se_usage = None\<rparr>"

text \<open>
  \<open>app/services/streaming_handler.py\<close>. The event types of \<open>SSEEventType\<close> are strings.
  The timestamp of an \<open>SSEEvent\<close> is left out.
\<close>

abbreviation SSE_MESSAGE :: string where "SSE_MESSAGE \<equiv> ''message''"
abbreviation SSE_STREAM_CHUNK :: string where "SSE_STREAM_CHUNK \<equiv> ''stream_chunk''"
abbreviation SSE_TOOL_CALL :: string where "SSE_TOOL_CALL \<equiv> ''tool_call''"
abbreviation SSE_TOOL_RESULT :: string where "SSE_TOOL_RESULT \<equiv> ''tool_result''"
abbreviation SSE_STATUS :: string where "SSE_STATUS \<equiv> ''status''"
abbreviation SSE_ERROR :: string where "SSE_ERROR \<equiv> ''error''"
abbreviation SSE_COMPLETE :: string where "SSE_COMPLETE \<equiv> ''complete''"

record SSEEvent =
  sse_type :: string
  sse_data :: "(string \<times> json) list"
  sse_session_id :: string

definition sse :: "string \<Rightarrow> string \<Rightarrow> (string \<times> json) list \<Rightarrow> SSEEvent" where
  "sse ty sid dat = \<lparr>sse_type = ty, sse_data = dat, sse_session_id = sid\<rparr>"

definition status_event :: "string \<Rightarrow> string \<Rightarrow> SSEEvent" where
  "status_event sid st = sse SSE_STATUS sid [(''status'', JStr st)]"

definition waiting_permission_event :: "string \<Rightarrow> nat \<Rightarrow> SSEEvent" where
  "waiting_permission_event sid n =
     sse SSE_STATUS sid [(''status'', JStr ''waiting_permission''), (''pending_count'', JInt (int n))]"

definition tool_result_event :: "string \<Rightarrow> LLMToolResult \<Rightarrow> SSEEvent" where
  "tool_result_event sid r =
     sse SSE_TOOL_RESULT sid
       [(''tool_use_id'', JStr (tool_use_id r)), (''content'', JStr (take 1000 (content r))),
        (''is_error'', JBool (is_error r))]"

definition assistant_message_event :: "string \<Rightarrow> string \<Rightarrow> SSEEvent" where
  "assistant_message_event sid text =
     sse SSE_MESSAGE sid [(''role'', JStr ''assistant''), (''content'', JStr text)]"

definition complete_event :: "string \<Rightarrow> Conversation \<Rightarrow> SSEEvent" where
  "complete_event sid conv =
     sse SSE_COMPLETE sid
       [(''total_input_tokens'', JInt (total_input_tokens conv)),
        (''total_output_tokens'', JInt (total_output_tokens conv))]"

text \<open>
  The provider is called with the messages, model, tools and system prompt, all taken
  from the conversation and the tool registry, and acts on the outside world. Its stream
  is the list of events, followed by an exception \<open>e\<close> when the second component is
  \<open>Some (str e)\<close>.
\<close>

record 'w StreamingHandler =
  provider :: "Conversation \<Rightarrow> 'w \<Rightarrow> (StreamEvent list \<times> string option) \<times> 'w"
  conversation :: Conversation
  tool_service :: "'w ToolExecutionService"
  max_tool_iterations :: int

text \<open>
  A run of one of the handler's generators: the events it yielded, how it ended (it
  returned, or an exception left it), the handler and the world afterwards.
\<close>

datatype Ending = Returned | Raised string

record 'w Run =
  emitted :: "SSEEvent list"
  ending :: Ending
  handler :: "'w StreamingHandler"
  world :: "'w"

text \<open>The conversation methods with their ids and clock readings drawn from the world.\<close>

definition conv_add_user_message ::
  "'w Runtime \<Rightarrow> Conversation \<Rightarrow> string \<Rightarrow> 'w \<Rightarrow> Conversation \<times> 'w" where
  "conv_add_user_message rt conv text w =
     (let (new_id, w1) = uuid4 rt w; (created, w2) = utcnow rt w1; (now, w3) = utcnow rt w2
      in (add_user_message conv new_id created now text, w3))"

definition conv_add_assistant_message ::
  "'w Runtime \<Rightarrow> Conversation \<Rightarrow> string \<Rightarrow> ToolUse list option \<Rightarrow> 'w \<Rightarrow> Conversation \<times> 'w" where
  "conv_add_assistant_message rt conv text tus w =
     (let (new_id, w1) = uuid4 rt w; (created, w2) = utcnow rt w1; (now, w3) = utcnow rt w2
      in (add_assistant_message conv new_id created now text tus None, w3))"

definition conv_add_tool_results ::
  "'w Runtime \<Rightarrow> Conversation \<Rightarrow> LLMToolResult list \<Rightarrow> 'w \<Rightarrow> Conversation \<times> 'w" where
  "conv_add_tool_results rt conv results w =
     (let (new_id, w1) = uuid4 rt w; (created, w2) = utcnow rt w1; (now, w3) = utcnow rt w2
      in (add_tool_results conv new_id created now results, w3))"

definition the_list :: "'a option \<Rightarrow> 'a list" where
  "the_list x = (case x of None \<Rightarrow> [] | Some v \<Rightarrow> [v])"

definition event_text :: "StreamEvent \<Rightarrow> string" where
  "event_text e = (case se_text e of None \<Rightarrow> [] | Some t \<Rightarrow> t)"

definition usage_get :: "(string \<times> int) list \<Rightarrow> string \<Rightarrow> int" where
  "usage_get u k = (case map_of u k of None \<Rightarrow> 0 | Some n \<Rightarrow> n)"

text \<open>
  The body of the loop over the provider's stream inside \<open>process_prompt\<close>, for one
  event: whether an \<open>ERROR\<close> event makes the generator return, the new
  \<open>accumulated_text\<close>, tool uses and conversation, and the events yielded.
\<close>

definition stream_event ::
  "string \<Rightarrow> StreamEvent \<Rightarrow> string \<Rightarrow> ToolUse list \<Rightarrow> Conversation
     \<Rightarrow> bool \<times> string \<times> ToolUse list \<times> Conversation \<times> SSEEvent list" where
  "stream_event sid e accumulated_text tus conv =
     (if se_type e = TEXT_DELTA \<and> event_text e \<noteq> [] then
        (False, accumulated_text @ event_text e, tus, conv,
         [sse SSE_STREAM_CHUNK sid
            [(''content'', JStr (event_text e)),
             (''accumulated'', JStr (accumulated_text @ event_text e))]])
      else if se_type e = TOOL_USE_START then
        (False, accumulated_text, tus, conv,
         [sse SSE_TOOL_CALL sid
            [(''status'', JStr ''started''), (''tool_id'', opt_str (se_tool_use_id e)),
             (''tool_name'', opt_str (se_tool_name e))]])
      else if se_type e = TOOL_USE_END \<and> se_tool_use e \<noteq> None then
        (case se_tool_use e of
           None \<Rightarrow> (False, accumulated_text, tus, conv, [])
         | Some tu \<Rightarrow>
             (False, accumulated_text, tus @ [tu], conv,
              [sse SSE_TOOL_CALL sid
                 [(''status'', JStr ''complete''), (''tool_id'', JStr (tu_id tu)),
                  (''tool_name'', JStr (tu_name tu)), (''arguments'', tu_arguments tu)]]))
      else if se_type e = ERROR then
        (True, accumulated_text, tus, conv, [sse SSE_ERROR sid [(''error'', opt_str (se_error e))]])
      else if se_type e = MESSAGE_END then
        (case se_usage e of
           None \<Rightarrow> (False, accumulated_text, tus, conv, [])
         | Some u \<Rightarrow>
             if u \<noteq> [] then
               (False, accumulated_text, tus,
                update_token_usage conv (usage_get u ''input_tokens'') (usage_get u ''output_tokens''),
                [])
             else (False, accumulated_text, tus, conv, []))
      else (False, accumulated_text, tus, conv, []))"

text \<open>
  The loop itself. The first component of the result is True when an \<open>ERROR\<close> event
  ended it.
\<close>

fun process_stream ::
  "string \<Rightarrow> StreamEvent list \<Rightarrow> string \<Rightarrow> ToolUse list \<Rightarrow> Conversation \<Rightarrow> SSEEvent list
     \<Rightarrow> bool \<times> string \<times> ToolUse list \<times> Conversation \<times> SSEEvent list" where
  "process_stream sid [] accumulated_text tus conv out = (False, accumulated_text, tus, conv, out)"
| "process_stream sid (e # es) accumulated_text tus conv out =
     (case stream_event sid e accumulated_text tus conv of
        (stop, acc1, tus1, conv1, new) \<Rightarrow>
          if stop then (True, acc1, tus1, conv1, out @ new)
          else process_stream sid es acc1 tus1 conv1 (out @ new))"

text \<open>\<open>StreamingHandler._execute_tools\<close>: one \<open>execute_tool\<close> after the other.\<close>

definition handler_execute_tools ::
  "'w Runtime \<Rightarrow> 'w ToolExecutionService \<Rightarrow> ToolUse list \<Rightarrow> 'w
     \<Rightarrow> LLMToolResult list \<times> 'w ToolExecutionService \<times> 'w" where
  "handler_execute_tools rt svc tus w = execute_tools_seq rt svc tus w"

text \<open>
  One pass through the body of the \<open>while\<close> loop of \<open>process_prompt\<close>: the generator
  returns (\<open>Exit\<close>), the loop continues with the next provider round (\<open>Continue\<close>), or
  the loop is left by \<open>break\<close> (\<open>Break\<close>); the last two carry \<open>accumulated_text\<close>.
\<close>

datatype 'w Step =
    Exit "'w Run"
  | Continue string "'w StreamingHandler" 'w "SSEEvent list"
  | Break string "'w StreamingHandler" 'w "SSEEvent list"

definition process_round ::
  "'w Runtime \<Rightarrow> 'w StreamingHandler \<Rightarrow> 'w \<Rightarrow> SSEEvent list \<Rightarrow> 'w Step" where
  "process_round rt h w out =
     (let sid = session_id (conversation h);
          out1 = out @ [status_event sid ''thinking''];
          ((evs, exc), w1) = provider h (conversation h) w;
          (err, text, tus, conv1, out2) = process_stream sid evs [] [] (conversation h) out1
      in if err then
           Exit \<lparr>emitted = out2, ending = Returned, handler = h\<lparr>conversation := conv1\<rparr>, world = w1\<rparr>
         else
           (case exc of
              Some e \<Rightarrow>
                Exit \<lparr>emitted = out2 @ [sse SSE_ERROR sid [(''error'', JStr e)]], ending = Returned,
                      handler = h\<lparr>conversation := conv1\<rparr>, world = w1\<rparr>
            | None \<Rightarrow>
                (let (conv2, w2) =
                       conv_add_assistant_message rt conv1 text
                         (if tus \<noteq> [] then Some tus else None) w1
                 in if tus \<noteq> [] then
                      (let out3 = out2 @ [status_event sid ''executing_tools''];
                           (results, svc1, w3) = handler_execute_tools rt (tool_service h) tus w2;
                           has_pending = (get_pending_permissions svc1 \<noteq> [])
                       in if has_pending then
                            Exit \<lparr>emitted = out3 @ [waiting_permission_event sid
                                                       (length (get_pending_permissions svc1))],
                                  ending = Returned,
                                  handler = h\<lparr>conversation := conv2, tool_service := svc1\<rparr>,
                                  world = w3\<rparr>
                          else
                            (let out4 = out3 @ map (tool_result_event sid) results;
                                 (conv3, w4) = conv_add_tool_results rt conv2 results w3
                             in Continue text (h\<lparr>conversation := conv3, tool_service := svc1\<rparr>)
                                  w4 out4))
                    else Break text (h\<lparr>conversation := conv2\<rparr>) w2 out2)))"

text \<open>
  After the loop: the final message and the \<open>complete\<close> event. \<open>accumulated_text\<close> is
  assigned inside the loop only; when the loop body never ran it is unbound and reading
  it raises.
\<close>

definition finish ::
  "string option \<Rightarrow> 'w StreamingHandler \<Rightarrow> 'w \<Rightarrow> SSEEvent list \<Rightarrow> 'w Run" where
  "finish accumulated_text h w out =
     (case accumulated_text of
        None \<Rightarrow> \<lparr>emitted = out, ending = Raised ''UnboundLocalError'', handler = h, world = w\<rparr>
      | Some text \<Rightarrow>
          \<lparr>emitted = out @ [assistant_message_event (session_id (conversation h)) text,
                            complete_event (session_id (conversation h)) (conversation h)],
           ending = Returned, handler = h, world = w\<rparr>)"

text \<open>
  The \<open>while\<close> loop of \<open>process_prompt\<close>, from the loop test on; \<open>accumulated_text\<close> is
  \<open>None\<close> while the variable is unbound.
\<close>

function process_prompt_loop ::
  "'w Runtime \<Rightarrow> int \<Rightarrow> string option \<Rightarrow> 'w StreamingHandler \<Rightarrow> 'w \<Rightarrow> SSEEvent list \<Rightarrow> 'w Run" where
  "process_prompt_loop rt iteration accumulated_text h w out =
     (if iteration < max_tool_iterations h then
        (case process_round rt h w out of
           Exit r \<Rightarrow> r
         | Continue text h1 w1 out1 \<Rightarrow>
             process_prompt_loop rt (iteration + 1) (Some text) h1 w1 out1
         | Break text h1 w1 out1 \<Rightarrow> finish (Some text) h1 w1 out1)
      else finish accumulated_text h w out)"
  by pat_completeness auto
termination
proof (relation "measure (\<lambda>(rt, iteration, acc, h, w, out). nat (max_tool_iterations h - iteration))")
  show "wf (measure (\<lambda>(rt, iteration, acc, h, w, out). nat (max_tool_iterations h - iteration)))"
    by simp
next
  fix rt :: "'w Runtime" and iteration :: int and accumulated_text :: "string option"
    and h :: "'w StreamingHandler" and w :: 'w and out :: "SSEEvent list"
    and t h1 w1 out1
  assume lt: "iteration < max_tool_iterations h"
    and step: "process_round rt h w out = Continue t h1 w1 out1"
  have "max_tool_iterations h1 = max_tool_iterations h"
    using step
    by (auto simp: process_round_def Let_def split: prod.splits if_splits option.splits)
  then show "((rt, iteration + 1, Some t, h1, w1, out1), (rt, iteration, accumulated_text, h, w, out))
        \<in> measure (\<lambda>(rt, iteration, acc, h, w, out). nat (max_tool_iterations h - iteration))"
    using lt by simp
qed

declare process_prompt_loop.simps [simp del]

text \<open>
  The loop states that a run passes through: \<open>loop_reaches rt i0 h0 w0 out0 i h w out\<close>
  says that the loop, started with counter \<open>i0\<close>, handler \<open>h0\<close>, world \<open>w0\<close> and
  events \<open>out0\<close>, comes to its test with counter \<open>i\<close>, handler \<open>h\<close>, world \<open>w\<close> and
  events \<open>out\<close>.
\<close>

inductive loop_reaches ::
  "'w Runtime \<Rightarrow> int \<Rightarrow> 'w StreamingHandler \<Rightarrow> 'w \<Rightarrow> SSEEvent list
     \<Rightarrow> int \<Rightarrow> 'w StreamingHandler \<Rightarrow> 'w \<Rightarrow> SSEEvent list \<Rightarrow> bool"
  for rt :: "'w Runtime" and i0 :: int and h0 :: "'w StreamingHandler" and w0 :: 'w
    and out0 :: "SSEEvent list" where
  loop_start: "loop_reaches rt i0 h0 w0 out0 i0 h0 w0 out0"
| loop_step:
    "loop_reaches rt i0 h0 w0 out0 i h w out \<Longrightarrow> i < max_tool_iterations h
     \<Longrightarrow> process_round rt h w out = Continue t h1 w1 out1
     \<Longrightarrow> loop_reaches rt i0 h0 w0 out0 (i + 1) h1 w1 out1"

definition process_prompt ::
  "'w Runtime \<Rightarrow> 'w StreamingHandler \<Rightarrow> string \<Rightarrow> 'w \<Rightarrow> 'w Run" where
  "process_prompt rt h prompt w =
     (let sid = session_id (conversation h);
          (conv1, w1) = conv_add_user_message rt (conversation h) prompt w
      in process_prompt_loop rt 0 None (h\<lparr>conversation := conv1\<rparr>) w1
           [sse SSE_MESSAGE sid [(''role'', JStr ''user''), (''content'', JStr prompt)]])"

text \<open>
  The loop over the provider's stream inside \<open>_continue_conversation\<close>: text deltas and
  finished tool uses only.
\<close>

fun continue_stream ::
  "string \<Rightarrow> StreamEvent list \<Rightarrow> string \<Rightarrow> ToolUse list \<Rightarrow> SSEEvent list
     \<Rightarrow> string \<times> ToolUse list \<times> SSEEvent list" where
  "continue_stream sid [] accumulated_text tus out = (accumulated_text, tus, out)"
| "continue_stream sid (e # es) accumulated_text tus out =
     (if se_type e = TEXT_DELTA \<and> event_text e \<noteq> [] then
        continue_stream sid es (accumulated_text @ event_text e) tus
          (out @ [sse SSE_STREAM_CHUNK sid
                    [(''content'', JStr (event_text e)),
                     (''accumulated'', JStr (accumulated_text @ event_text e))]])
      else if se_type e = TOOL_USE_END \<and> se_tool_use e \<noteq> None then
        continue_stream sid es accumulated_text (tus @ the_list (se_tool_use e)) out
      else continue_stream sid es accumulated_text tus out)"

text \<open>
  \<open>_continue_conversation\<close> calls itself after every round that used tools, with no
  counter. The first argument is fuel: the number of provider rounds the model may run;
  \<open>None\<close> means the fuel ran out before the generator ended. An exception of the
  provider's stream is not caught here and leaves the generator.
\<close>

fun continue_conversation ::
  "nat \<Rightarrow> 'w Runtime \<Rightarrow> 'w StreamingHandler \<Rightarrow> 'w \<Rightarrow> SSEEvent list \<Rightarrow> 'w Run option" where
  "continue_conversation 0 rt h w out = None"
| "continue_conversation (Suc fuel) rt h w out =
     (let sid = session_id (conversation h);
          out1 = out @ [status_event sid ''thinking''];
          resp = provider h (conversation h) w;
          st = continue_stream sid (fst (fst resp)) [] [] out1;
          text = fst st; tus = fst (snd st); out2 = snd (snd st);
          w1 = snd resp
      in case snd (fst resp) of
           Some e \<Rightarrow> Some \<lparr>emitted = out2, ending = Raised e, handler = h, world = w1\<rparr>
         | None \<Rightarrow>
             (let a = conv_add_assistant_message rt (conversation h) text
                        (if tus \<noteq> [] then Some tus else None) w1
              in if tus \<noteq> [] then
                   (let x = execute_tools rt (tool_service h) tus True (snd a);
                        c = conv_add_tool_results rt (fst a) (fst x) (snd (snd x))
                    in continue_conversation fuel rt
                         (h\<lparr>conversation := fst c, tool_service := fst (snd x)\<rparr>) (snd c) out2)
                 else
                   Some \<lparr>emitted = out2 @ [assistant_message_event sid text,
                                             complete_event sid (fst a)],
                         ending = Returned, handler = h\<lparr>conversation := fst a\<rparr>,
                         world = snd a\<rparr>))"

text \<open>\<open>continue_after_permission\<close>, with the fuel for the continuation it may enter.\<close>

definition continue_after_permission ::
  "nat \<Rightarrow> 'w Runtime \<Rightarrow> 'w StreamingHandler \<Rightarrow> string \<Rightarrow> bool \<Rightarrow> bool \<Rightarrow> 'w \<Rightarrow> 'w Run option" where
  "continue_after_permission fuel rt h permission_id approved always w =
     (let sid = session_id (conversation h);
          (found, svc1, w1) = respond_permission (tool_service h) permission_id approved always w;
          h1 = h\<lparr>tool_service := svc1\<rparr>
      in if \<not> approved then
           (case find (\<lambda>p. pp_id p = permission_id) (get_pending_permissions svc1) of
              Some p \<Rightarrow>
                (let (conv1, w2) =
                       conv_add_tool_results rt (conversation h1)
                         [llm_result (pp_id p) ''Permission denied by user'' True] w1
                 in Some \<lparr>emitted =
                            [sse SSE_TOOL_RESULT sid
                               [(''tool_use_id'', JStr (pp_id p)),
                                (''content'', JStr ''Permission denied''),
                                (''is_error'', JBool True)],
                             status_event sid ''permission_denied''],
                          ending = Returned, handler = h1\<lparr>conversation := conv1\<rparr>, world = w2\<rparr>)
            | None \<Rightarrow>
                Some \<lparr>emitted = [status_event sid ''permission_denied''], ending = Returned,
                      handler = h1, world = w1\<rparr>)
         else
           (case get_pending_tool_uses (conversation h1) of
              Inl e \<Rightarrow> Some \<lparr>emitted = [], ending = Raised e, handler = h1, world = w1\<rparr>
            | Inr pending_tool_uses \<Rightarrow>
                if pending_tool_uses \<noteq> [] then
                  (let (results, svc2, w2) = execute_tools rt svc1 pending_tool_uses True w1;
                       out = map (tool_result_event sid) results;
                       (conv1, w3) = conv_add_tool_results rt (conversation h1) results w2
                   in continue_conversation fuel rt
                        (h1\<lparr>conversation := conv1, tool_service := svc2\<rparr>) w3 out)
                else Some \<lparr>emitted = [], ending = Returned, handler = h1, world = w1\<rparr>))"

text \<open>
  The number of provider rounds of a run: each round starts with one \<open>thinking\<close> status,
  and nothing else yields one.
\<close>

definition is_thinking :: "SSEEvent \<Rightarrow> bool" where
  "is_thinking x = (sse_type x = SSE_STATUS \<and> sse_data x = [(''status'', JStr ''thinking'')])"

definition provider_rounds :: "SSEEvent list \<Rightarrow> nat" where
  "provider_rounds evs = length (filter is_thinking evs)"

section \<open>MCP connections\<close>

text \<open>Python's \<open>str()\<close> of an integer, for the messages that print one.\<close>

definition digit_char :: "nat \<Rightarrow> char" where
  "digit_char d = char_of (48 + d)"

function str_nat :: "nat \<Rightarrow> string" where
  "str_nat n = (if n < 10 then [digit_char n] else str_nat (n div 10) @ [digit_char (n mod 10)])"
  by pat_completeness auto
termination
  by (relation "measure id") auto

declare str_nat.simps [simp del]

definition str_int :: "int \<Rightarrow> string" where
  "str_int i = (if i < 0 then ''-'' @ str_nat (nat (- i)) else str_nat (nat i))"

text \<open>
  \<open>app/services/mcp_connection_service.py\<close>. A connection is of one of the two
  subclasses. \<open>has_transport\<close> tells whether the subprocess (stdio) or the HTTP client
  (SSE) exists. The futures that \<open>send_request\<close> creates live in a store by address:
  the pending dict and the waiting call hold the same future. \<open>written\<close> lists the
  requests written to the transport. The discovered server information, tools,
  resources and prompts are left out.
\<close>

datatype MCPConnectionState = DISCONNECTED | CONNECTING | CONNECTED | STATE_ERROR

datatype Transport = Stdio | SSE

datatype Future = Waiting | Resolved json | Rejected json | Cancelled

record MCPConnection =
  server_name :: string
  config :: "(string \<times> json) list"
  transport :: Transport
  state :: MCPConnectionState
  error_message :: "string option"
  connected_at :: "nat option"
  request_id :: int
  pending_requests :: "(int \<times> nat) list"
  futures :: "(nat \<times> Future) list"
  has_transport :: bool
  written :: "(int \<times> string \<times> json option) list"

definition new_connection :: "Transport \<Rightarrow> string \<Rightarrow> (string \<times> json) list \<Rightarrow> MCPConnection" where
  "new_connection tr name cfg =
     \<lparr>server_name = name, config = cfg, transport = tr, state = DISCONNECTED,
      error_message = None, connected_at = None, request_id = 0, pending_requests = [],
      futures = [], has_transport = False, written = []\<rparr>"

definition next_request_id :: "MCPConnection \<Rightarrow> int \<times> MCPConnection" where
  "next_request_id c = (request_id c + 1, c\<lparr>request_id := request_id c + 1\<rparr>)"

text \<open>The ids returned by \<open>n\<close> successive calls of \<open>_next_request_id\<close>.\<close>

fun issue_ids :: "nat \<Rightarrow> MCPConnection \<Rightarrow> int list \<times> MCPConnection" where
  "issue_ids 0 c = ([], c)"
| "issue_ids (Suc n) c =
     (let (i, c1) = next_request_id c; (is, c2) = issue_ids n c1 in (i # is, c2))"

text \<open>\<open>create_future\<close>: a new future at a fresh address.\<close>

definition create_future :: "MCPConnection \<Rightarrow> nat \<times> MCPConnection" where
  "create_future c = (length (futures c), c\<lparr>futures := futures c @ [(length (futures c), Waiting)]\<rparr>)"

text \<open>
  \<open>set_result\<close> and \<open>set_exception\<close> raise \<open>InvalidStateError\<close> on a future that is
  already done. The first component of a result is the exception raised, if any.
\<close>

definition set_future :: "MCPConnection \<Rightarrow> nat \<Rightarrow> Future \<Rightarrow> string option \<times> MCPConnection" where
  "set_future c fut v =
     (case map_of (futures c) fut of
        Some Waiting \<Rightarrow> (None, c\<lparr>futures := AList.update fut v (futures c)\<rparr>)
      | _ \<Rightarrow> (Some ''InvalidStateError'', c))"

text \<open>
  The dict key that a JSON id looks up: an integer itself, a boolean as 0 or 1 (Python
  compares \<open>True\<close> equal to 1), no key for a string or null; a list or an object is
  unhashable and the lookup raises \<open>TypeError\<close>.
\<close>

definition key_of :: "json \<Rightarrow> string + int option" where
  "key_of j =
     (case j of JInt k \<Rightarrow> Inr (Some k) | JBool b \<Rightarrow> Inr (Some (if b then 1 else 0))
      | JArr xs \<Rightarrow> Inl ''TypeError'' | JObj kv \<Rightarrow> Inl ''TypeError'' | _ \<Rightarrow> Inr None)"

text \<open>
  \<open>_handle_message\<close>, the same in both subclasses but for logging. A message is a JSON
  object. The first component of the result is the exception that leaves the handler.
\<close>

definition handle_message ::
  "MCPConnection \<Rightarrow> (string \<times> json) list \<Rightarrow> string option \<times> MCPConnection" where
  "handle_message c message =
     (case map_of message ''id'' of
        None \<Rightarrow> (None, c)
      | Some rid \<Rightarrow>
          (case key_of rid of
             Inl e \<Rightarrow> (Some e, c)
           | Inr None \<Rightarrow> (None, c)
           | Inr (Some k) \<Rightarrow>
               (case map_of (pending_requests c) k of
                  None \<Rightarrow> (None, c)
                | Some fut \<Rightarrow>
                    (let c1 = c\<lparr>pending_requests := AList.delete k (pending_requests c)\<rparr>
                     in case map_of message ''error'' of
                          Some err \<Rightarrow>
                            (case err of
                               JObj kv \<Rightarrow>
                                 set_future c1 fut
                                   (Rejected (case map_of kv ''message'' of
                                                None \<Rightarrow> JStr ''Unknown error'' | Some v \<Rightarrow> v))
                             | _ \<Rightarrow> (Some ''AttributeError'', c1))
                        | None \<Rightarrow>
                            set_future c1 fut
                              (Resolved (case map_of message ''result'' of
                                           None \<Rightarrow> JNull | Some v \<Rightarrow> v))))))"

text \<open>What \<open>send_request\<close> raises.\<close>

datatype RequestError =
    RuntimeError string
  | TimeoutError string
  | RemoteError json
  | HttpError string
  | CancelledError

text \<open>
  The first half of \<open>send_request\<close>, up to the point where the request has been handed
  to the transport: the id, the future, the pending entry, the write.
\<close>

definition register_request ::
  "MCPConnection \<Rightarrow> string \<Rightarrow> json option \<Rightarrow> RequestError + (int \<times> nat) \<times> MCPConnection" where
  "register_request c method params =
     (if \<not> has_transport c then Inl (RuntimeError ''Not connected'')
      else
        (let (rid, c1) = next_request_id c;
             (fut, c2) = create_future c1;
             c3 = c2\<lparr>pending_requests := AList.update rid fut (pending_requests c2)\<rparr>;
             c4 = c3\<lparr>written := written c3 @ [(rid, method, params)]\<rparr>
         in Inr ((rid, fut), c4)))"

text \<open>
  \<open>asyncio.wait_for(future, timeout=30.0)\<close> and the handler of its \<open>TimeoutError\<close>, at
  the moment the wait ends: the future is done, or the 30 seconds have passed with the
  future still waiting; then the future is cancelled, the pending entry is removed and
  \<open>TimeoutError\<close> is raised.
\<close>

definition wait_for ::
  "MCPConnection \<Rightarrow> int \<Rightarrow> nat \<Rightarrow> string \<Rightarrow> (RequestError + json) \<times> MCPConnection" where
  "wait_for c rid fut method =
     (case map_of (futures c) fut of
        Some (Resolved v) \<Rightarrow> (Inr v, c)
      | Some (Rejected e) \<Rightarrow> (Inl (RemoteError e), c)
      | Some Cancelled \<Rightarrow> (Inl CancelledError, c)
      | _ \<Rightarrow>
          (Inl (TimeoutError (''Request '' @ method @ '' timed out'')),
           c\<lparr>pending_requests := AList.delete rid (pending_requests c),
             futures := AList.update fut Cancelled (futures c)\<rparr>))"

text \<open>The read loop handing messages to \<open>_handle_message\<close>; a handler's exception is not the caller's.\<close>

fun read_messages :: "MCPConnection \<Rightarrow> (string \<times> json) list list \<Rightarrow> MCPConnection" where
  "read_messages c [] = c"
| "read_messages c (m # ms) = read_messages (snd (handle_message c m)) ms"

text \<open>
  \<open>StdioMCPConnection.send_request\<close> as one call: \<open>inbound\<close> are the messages that the
  read loop handles while the call waits.
\<close>

definition stdio_send_request ::
  "MCPConnection \<Rightarrow> string \<Rightarrow> json option \<Rightarrow> (string \<times> json) list list
     \<Rightarrow> (RequestError + json) \<times> MCPConnection" where
  "stdio_send_request c method params inbound =
     (case register_request c method params of
        Inl e \<Rightarrow> (Inl e, c)
      | Inr ((rid, fut), c1) \<Rightarrow> wait_for (read_messages c1 inbound) rid fut method)"

text \<open>
  \<open>SSEMCPConnection.send_request\<close>: the request is posted and the HTTP response decides.
  The response body, when its content type is JSON, is a JSON object.
\<close>

record HttpResponse =
  status_code :: int
  content_type :: string
  body :: "(string \<times> json) list"

definition sse_send_request ::
  "MCPConnection \<Rightarrow> string \<Rightarrow> json option \<Rightarrow> HttpResponse \<Rightarrow> (string \<times> json) list list
     \<Rightarrow> (RequestError + json) \<times> MCPConnection" where
  "sse_send_request c method params response inbound =
     (case register_request c method params of
        Inl e \<Rightarrow> (Inl e, c)
      | Inr ((rid, fut), c1) \<Rightarrow>
          if status_code response \<noteq> 200
          then (Inl (HttpError (''HTTP error: '' @ str_int (status_code response))), c1)
          else if prefix ''application/json'' (content_type response)
                  \<and> map_of (body response) ''id'' \<noteq> None
          then
            (let c2 = c1\<lparr>pending_requests := AList.delete rid (pending_requests c1)\<rparr>
             in case map_of (body response) ''error'' of
                  Some (JObj kv) \<Rightarrow>
                    (Inl (RemoteError (case map_of kv ''message'' of
                                         None \<Rightarrow> JStr ''Unknown error'' | Some v \<Rightarrow> v)), c2)
                | Some other \<Rightarrow> (Inl (RuntimeError ''AttributeError''), c2)
                | None \<Rightarrow>
                    (Inr (case map_of (body response) ''result'' of None \<Rightarrow> JNull | Some v \<Rightarrow> v),
                     c2))
          else wait_for (read_messages c1 inbound) rid fut method)"

section \<open>Connecting through the connection manager\<close>

text \<open>
  What \<open>connect\<close> and \<open>disconnect\<close> of a connection ask of the operating system and
  the network is a parameter: \<open>establish\<close> starts the subprocess or the HTTP client and
  runs the \<open>initialize\<close> handshake (it raises, or \<open>initialize\<close> returns a boolean),
  \<open>discover\<close> runs the three discovery requests (their failures are caught inside),
  \<open>teardown\<close> cancels the read loop and ends the subprocess or closes the client; it
  raises when \<open>process.terminate()\<close> or \<open>aclose()\<close> does (\<open>ProcessLookupError\<close> for a
  subprocess that has exited), and \<open>Some e\<close> is that exception. \<open>not_container v\<close> is
  the text of the \<open>TypeError\<close> that \<open>c in v\<close> raises for a number or a boolean \<open>v\<close>.
\<close>

datatype Handshake = Raises string | Initialized bool

record 'w McpEnv =
  establish :: "MCPConnection \<Rightarrow> 'w \<Rightarrow> (Handshake \<times> MCPConnection) \<times> 'w"
  discover :: "MCPConnection \<Rightarrow> 'w \<Rightarrow> MCPConnection \<times> 'w"
  teardown :: "MCPConnection \<Rightarrow> 'w \<Rightarrow> string option \<times> 'w"
  clock :: "'w \<Rightarrow> nat \<times> 'w"
  str_of :: "json \<Rightarrow> string"
  not_container :: "json \<Rightarrow> string"

text \<open>\<open>config.get(k, "")\<close>.\<close>

definition config_get :: "(string \<times> json) list \<Rightarrow> string \<Rightarrow> json" where
  "config_get cfg k = (case map_of cfg k of Some v \<Rightarrow> v | None \<Rightarrow> JStr [])"

text \<open>
  \<open>c in command\<close> for a one-character string \<open>c\<close>: a substring test on a string, a
  membership test on a list and on the keys of a dict, a \<open>TypeError\<close> otherwise.
\<close>

definition char_in :: "'w McpEnv \<Rightarrow> char \<Rightarrow> json \<Rightarrow> string + bool" where
  "char_in env c v =
     (case v of
        JStr s \<Rightarrow> Inr (c \<in> set s)
      | JArr xs \<Rightarrow> Inr (JStr [c] \<in> set xs)
      | JObj kv \<Rightarrow> Inr ([c] \<in> set (map fst kv))
      | _ \<Rightarrow> Inl (not_container env v))"

text \<open>\<open>any(c in command for c in [...])\<close>, from the left, stopping at the first hit.\<close>

fun any_char_in :: "'w McpEnv \<Rightarrow> string \<Rightarrow> json \<Rightarrow> string + bool" where
  "any_char_in env [] v = Inr False"
| "any_char_in env (c # cs) v =
     (case char_in env c v of
        Inl e \<Rightarrow> Inl e
      | Inr hit \<Rightarrow> if hit then Inr True else any_char_in env cs v)"

text \<open>
  The checks of \<open>connect\<close> before anything is started, with the text of the exception
  that they raise.
\<close>

definition connect_precheck :: "'w McpEnv \<Rightarrow> MCPConnection \<Rightarrow> string option" where
  "connect_precheck env c =
     (case transport c of
        Stdio \<Rightarrow>
          (let command = config_get (config c) ''command''
           in if \<not> truthy command then Some ''Command is required for stdio connection''
              else case any_char_in env '';&|$`(){}'' command of
                     Inl e \<Rightarrow> Some e
                   | Inr hit \<Rightarrow>
                       if hit then Some ''Command contains invalid shell characters'' else None)
      | SSE \<Rightarrow>
          (if \<not> truthy (config_get (config c) ''endpoint'')
           then Some ''Endpoint is required for SSE connection'' else None))"

text \<open>\<open>connect()\<close> of a connection: the success flag and the connection afterwards.\<close>

definition connection_connect ::
  "'w McpEnv \<Rightarrow> MCPConnection \<Rightarrow> 'w \<Rightarrow> (bool \<times> MCPConnection) \<times> 'w" where
  "connection_connect env c w =
     (let c1 = c\<lparr>state := CONNECTING\<rparr>
      in case connect_precheck env c1 of
           Some e \<Rightarrow> ((False, c1\<lparr>state := STATE_ERROR, error_message := Some e\<rparr>), w)
         | None \<Rightarrow>
             (case establish env c1 w of
                ((Raises e, c2), w1) \<Rightarrow>
                  ((False, c2\<lparr>state := STATE_ERROR, error_message := Some e\<rparr>), w1)
              | ((Initialized ok, c2), w1) \<Rightarrow>
                  if ok then
                    (let (now, w2) = clock env w1;
                         (c3, w3) = discover env (c2\<lparr>state := CONNECTED, connected_at := Some now\<rparr>) w2
                     in ((True, c3), w3))
                  else ((False, c2\<lparr>state := STATE_ERROR\<rparr>), w1)))"

text \<open>
  \<open>disconnect()\<close> of a connection: when the teardown raises, the exception leaves the
  method before the state is set, and the connection is as it was.
\<close>

definition connection_disconnect ::
  "'w McpEnv \<Rightarrow> MCPConnection \<Rightarrow> 'w \<Rightarrow> (string + MCPConnection) \<times> 'w" where
  "connection_disconnect env c w =
     (case teardown env c w of
        (Some e, w1) \<Rightarrow> (Inl e, w1)
      | (None, w1) \<Rightarrow>
          (Inr (c\<lparr>state := DISCONNECTED,
                  has_transport := (case transport c of Stdio \<Rightarrow> False | SSE \<Rightarrow> has_transport c)\<rparr>),
           w1))"

text \<open>
  \<open>MCPConnectionManager\<close>: the registry \<open>_connections\<close> is a dict from server name to
  connection object. The lock serialises the calls and is not modelled.
  The first step of \<open>connect\<close> disconnects the connection registered under the name, if
  there is one; the object stays in the registry. An exception of that \<open>disconnect()\<close>
  is not caught.
\<close>

definition disconnect_existing ::
  "'w McpEnv \<Rightarrow> (string \<times> MCPConnection) list \<Rightarrow> string \<Rightarrow> 'w
     \<Rightarrow> (string + (string \<times> MCPConnection) list) \<times> 'w" where
  "disconnect_existing env connections srv_name w =
     (case map_of connections srv_name of
        None \<Rightarrow> (Inr connections, w)
      | Some old \<Rightarrow>
          (case connection_disconnect env old w of
             (Inl e, w1) \<Rightarrow> (Inl e, w1)
           | (Inr old1, w1) \<Rightarrow> (Inr (AList.update srv_name old1 connections), w1)))"

definition server_kind :: "(string \<times> json) list \<Rightarrow> Transport option" where
  "server_kind cfg =
     (let server_type = (case map_of cfg ''server_type'' of None \<Rightarrow> JStr ''stdio'' | Some v \<Rightarrow> v)
      in if server_type = JStr ''stdio'' \<or> server_type = JStr ''local'' then Some Stdio
         else if server_type = JStr ''sse'' \<or> server_type = JStr ''remote'' then Some SSE
         else None)"

text \<open>
  \<open>connect\<close> of the manager; \<open>Inl\<close> is an exception that leaves it: the one of the first
  step, or the \<open>ValueError\<close> for an unknown server type.
\<close>

definition manager_connect ::
  "'w McpEnv \<Rightarrow> (string \<times> MCPConnection) list \<Rightarrow> string \<Rightarrow> (string \<times> json) list \<Rightarrow> 'w
     \<Rightarrow> (string + MCPConnection) \<times> (string \<times> MCPConnection) list \<times> 'w" where
  "manager_connect env connections srv_name cfg w =
     (case disconnect_existing env connections srv_name w of
        (Inl e, w1) \<Rightarrow> (Inl e, connections, w1)
      | (Inr conns1, w1) \<Rightarrow>
          (case server_kind cfg of
             None \<Rightarrow>
               (Inl (''Unknown server type: ''
                       @ str_of env (case map_of cfg ''server_type'' of
                                       None \<Rightarrow> JStr ''stdio'' | Some v \<Rightarrow> v)),
                conns1, w1)
           | Some tr \<Rightarrow>
               (let ((success, connection), w2) =
                      connection_connect env (new_connection tr srv_name cfg) w1
                in if success
                   then (Inr connection, AList.update srv_name connection conns1, w2)
                   else (Inr connection, conns1, w2))))"

definition get_connection :: "(string \<times> MCPConnection) list \<Rightarrow> string \<Rightarrow> MCPConnection option" where
  "get_connection connections srv_name = map_of connections srv_name"

section \<open>The Anthropic provider's stream\<close>

text \<open>
  \<open>app/services/llm/anthropic_provider.py\<close>, \<open>stream_complete\<close>. The events of the
  Anthropic SDK stream, as far as the code reads them: a \<open>content_block_start\<close> with
  its block (\<open>None\<close> when the event has no \<open>content_block\<close> attribute), a
  \<open>content_block_delta\<close> with its delta, a \<open>message_delta\<close> with the output tokens of
  its usage, and the events without payload.
\<close>

datatype ApiBlock = ToolUseBlock string string | OtherBlock

datatype ApiDelta = TextDelta string | InputJsonDelta string | OtherDelta

datatype ApiEvent =
    MessageStart
  | ContentBlockStart "ApiBlock option"
  | ContentBlockDelta "ApiDelta option"
  | ContentBlockStop
  | MessageDelta "int option"
  | MessageStop
  | OtherEvent

text \<open>The three variables that track the tool use being streamed.\<close>

record ToolTracking =
  current_tool_id :: "string option"
  current_tool_name :: "string option"
  current_tool_input :: string

definition truthy_str :: "string option \<Rightarrow> bool" where
  "truthy_str x = (case x of None \<Rightarrow> False | Some s \<Rightarrow> s \<noteq> [])"

text \<open>
  \<open>json.loads\<close> is the parameter \<open>loads\<close>: it returns the parsed value, raises
  \<open>JSONDecodeError\<close>, or raises another exception with the text carried here
  (\<open>RecursionError\<close> on a deeply nested text).
\<close>

datatype LoadsResult = Parsed json | JSONDecodeError | OtherError string

text \<open>
  The body of the loop over the SDK stream for one event: the tracking variables and
  the events yielded, or the exception that leaves the loop (\<open>Inl\<close>).
\<close>

definition api_event ::
  "(string \<Rightarrow> LoadsResult) \<Rightarrow> ToolTracking \<Rightarrow> ApiEvent
     \<Rightarrow> string + ToolTracking \<times> StreamEvent list" where
  "api_event loads st ev =
     (case ev of
        MessageStart \<Rightarrow> Inr (st, [stream_ev MESSAGE_START])
      | ContentBlockStart blk \<Rightarrow>
          (case blk of
             Some (ToolUseBlock bid bname) \<Rightarrow>
               Inr (\<lparr>current_tool_id = Some bid, current_tool_name = Some bname,
                     current_tool_input = []\<rparr>,
                    [(stream_ev TOOL_USE_START)
                       \<lparr>se_tool_use_id := Some bid, se_tool_name := Some bname\<rparr>])
           | _ \<Rightarrow> Inr (st, []))
      | ContentBlockDelta dl \<Rightarrow>
          (case dl of
             Some (TextDelta t) \<Rightarrow> Inr (st, [(stream_ev TEXT_DELTA)\<lparr>se_text := Some t\<rparr>])
           | Some (InputJsonDelta partial_json) \<Rightarrow>
               Inr (st\<lparr>current_tool_input := current_tool_input st @ partial_json\<rparr>,
                    [(stream_ev TOOL_USE_DELTA)\<lparr>se_tool_use_id := current_tool_id st,
                                                se_tool_input_delta := Some partial_json\<rparr>])
           | _ \<Rightarrow> Inr (st, []))
      | ContentBlockStop \<Rightarrow>
          (if truthy_str (current_tool_id st) \<and> truthy_str (current_tool_name st) then
             (case (if current_tool_input st \<noteq> []
                    then (case loads (current_tool_input st) of
                            Parsed v \<Rightarrow> Inr v
                          | JSONDecodeError \<Rightarrow> Inr (JObj [])
                          | OtherError e \<Rightarrow> Inl e)
                    else Inr (JObj [])) of
                Inl e \<Rightarrow> Inl e
              | Inr tool_args \<Rightarrow>
                  Inr (\<lparr>current_tool_id = None, current_tool_name = None,
                        current_tool_input = []\<rparr>,
                       [(stream_ev TOOL_USE_END)
                          \<lparr>se_tool_use :=
                             Some \<lparr>tu_id = (case current_tool_id st of Some i \<Rightarrow> i | None \<Rightarrow> []),
                                   tu_name = (case current_tool_name st of Some n \<Rightarrow> n | None \<Rightarrow> []),
                                   tu_arguments = tool_args\<rparr>\<rparr>]))
           else Inr (st, []))
      | MessageDelta output_tokens \<Rightarrow>
          Inr (st, [(stream_ev MESSAGE_DELTA)
                      \<lparr>se_usage := map_option (\<lambda>n. [(''output_tokens'', n)]) output_tokens\<rparr>])
      | MessageStop \<Rightarrow> Inr (st, [stream_ev MESSAGE_END])
      | OtherEvent \<Rightarrow> Inr (st, []))"

text \<open>
  The loop over the events: the tracking variables at its end, the events yielded, and
  the exception that ended it, if one did.
\<close>

fun api_events ::
  "(string \<Rightarrow> LoadsResult) \<Rightarrow> ToolTracking \<Rightarrow> ApiEvent list
     \<Rightarrow> ToolTracking \<times> StreamEvent list \<times> string option" where
  "api_events loads st [] = (st, [], None)"
| "api_events loads st (ev # evs) =
     (case api_event loads st ev of
        Inl e \<Rightarrow> (st, [], Some e)
      | Inr (st1, out1) \<Rightarrow>
          (let (st2, out2, exc) = api_events loads st1 evs in (st2, out1 @ out2, exc)))"

text \<open>
  \<open>stream_complete\<close>: the SDK stream is a list of events, followed by an exception when
  the option is \<open>Some (str e)\<close>. An exception, of the stream or of the loop body, becomes
  a final \<open>ERROR\<close> event. \<open>stream_from\<close> is the function from given tracking variables;
  \<open>stream_complete\<close> starts with none.
\<close>

definition stream_from ::
  "(string \<Rightarrow> LoadsResult) \<Rightarrow> ToolTracking \<Rightarrow> ApiEvent list \<times> string option
     \<Rightarrow> StreamEvent list" where
  "stream_from loads st stream =
     (let (st1, out, exc) = api_events loads st (fst stream)
      in out @ (case (case exc of Some e \<Rightarrow> Some e | None \<Rightarrow> snd stream) of
                  None \<Rightarrow> []
                | Some e \<Rightarrow> [(stream_ev ERROR)\<lparr>se_error := Some e\<rparr>]))"

definition stream_complete ::
  "(string \<Rightarrow> LoadsResult) \<Rightarrow> ApiEvent list \<times> string option \<Rightarrow> StreamEvent list" where
  "stream_complete loads stream =
     stream_from loads
       \<lparr>current_tool_id = None, current_tool_name = None, current_tool_input = []\<rparr> stream"

text \<open>
  The fragment that an event adds to the tool input, and the events that can lie
  between the start of a tool-use block and its end-of-block signal: every event that
  is neither that signal nor the start of another tool-use block.
\<close>

definition fragment :: "ApiEvent \<Rightarrow> string" where
  "fragment ev = (case ev of ContentBlockDelta (Some (InputJsonDelta p)) \<Rightarrow> p | _ \<Rightarrow> [])"

definition inside_block :: "ApiEvent \<Rightarrow> bool" where
  "inside_block ev =
     (case ev of
        ContentBlockStop \<Rightarrow> False
      | ContentBlockStart (Some (ToolUseBlock bid bname)) \<Rightarrow> False
      | _ \<Rightarrow> True)"

section \<open>The edit_file tool\<close>

text \<open>
  Python's string operations that \<open>EditFileTool.execute\<close> uses. \<open>str.count\<close> and
  \<open>str.replace\<close> scan from the left and take occurrences that do not overlap; for the
  empty pattern there is one occurrence before every character and one at the end.
\<close>

fun py_in :: "string \<Rightarrow> string \<Rightarrow> bool" where
  "py_in sub [] = (sub = [])"
| "py_in sub (c # cs) = (prefix sub (c # cs) \<or> py_in sub cs)"

function count_from :: "string \<Rightarrow> string \<Rightarrow> nat" where
  "count_from sub s =
     (if sub = [] \<or> s = [] then 0
      else if prefix sub s then Suc (count_from sub (drop (length sub) s))
      else count_from sub (tl s))"
  by pat_completeness auto
termination
  by (relation "measure (\<lambda>(sub, s). length s)") auto

declare count_from.simps [simp del]

definition py_count :: "string \<Rightarrow> string \<Rightarrow> nat" where
  "py_count s sub = (if sub = [] then length s + 1 else count_from sub s)"

function replace_from :: "string \<Rightarrow> string \<Rightarrow> string \<Rightarrow> string" where
  "replace_from old new s =
     (if old = [] \<or> s = [] then s
      else if prefix old s then new @ replace_from old new (drop (length old) s)
      else hd s # replace_from old new (tl s))"
  by pat_completeness auto
termination
  by (relation "measure (\<lambda>(old, new, s). length s)") auto

declare replace_from.simps [simp del]

definition py_replace :: "string \<Rightarrow> string \<Rightarrow> string \<Rightarrow> string" where
  "py_replace s old new =
     (if old = [] then new @ concat (map (\<lambda>c. c # new) s) else replace_from old new s)"

text \<open>\<open>s.replace(old, new, 1)\<close>: the first occurrence only.\<close>

fun replace_first :: "string \<Rightarrow> string \<Rightarrow> string \<Rightarrow> string" where
  "replace_first old new [] = (if old = [] then new else [])"
| "replace_first old new (c # cs) =
     (if prefix old (c # cs) then new @ drop (length old) (c # cs)
      else c # replace_first old new cs)"

text \<open>
  What \<open>EditFileTool.execute\<close> asks of the operating system is a parameter, over the
  outside world \<open>'w\<close>; \<open>Inl e\<close> and \<open>Some e\<close> are an exception with \<open>str(e) = e\<close>.
  \<open>path_exists\<close> is \<open>file_path.exists()\<close>. \<open>read_text\<close> is the \<open>with\<close> block that opens
  the file for reading as UTF-8 text and reads it: it raises (the file cannot be
  opened, its bytes are not UTF-8) or gives the decoded text, in which text mode has
  turned every line end into \<open>\n\<close>. Neither changes the world. \<open>write_text\<close> is the
  \<open>with\<close> block that opens the file for writing, which truncates it, and writes the
  text: it gives the world afterwards, and raises after the truncation when the text
  cannot be encoded (a lone surrogate) or the device fails.
\<close>

record 'w FileIO =
  path_exists :: "Path \<Rightarrow> 'w \<Rightarrow> string + bool"
  read_text :: "Path \<Rightarrow> 'w \<Rightarrow> string + string"
  write_text :: "Path \<Rightarrow> string \<Rightarrow> 'w \<Rightarrow> string option \<times> 'w"

text \<open>
  \<open>app/tools/file_tools.py\<close>, \<open>EditFileTool.execute\<close>. The three required arguments
  are strings (\<open>validate_arguments\<close> has checked the schema before \<open>execute\<close> is
  called); a missing one raises \<open>KeyError\<close> outside the \<open>try\<close>, which is the \<open>Inl\<close>
  result. Every exception inside the \<open>try\<close> becomes an error result.
\<close>

definition edit_file_execute ::
  "'w FileIO \<Rightarrow> (Path \<Rightarrow> string + Path) \<Rightarrow> json \<Rightarrow> ToolContext \<Rightarrow> 'w
     \<Rightarrow> (string + ToolResult) \<times> 'w" where
  "edit_file_execute io resolve arguments ctx w =
     (case (dict_get arguments ''file_path'', dict_get arguments ''old_string'',
            dict_get arguments ''new_string'') of
        (Some (JStr file_path_str), Some (JStr old_string), Some (JStr new_string)) \<Rightarrow>
          (let replace_all =
                 truthy (case dict_get arguments ''replace_all'' of
                           None \<Rightarrow> JBool False | Some v \<Rightarrow> v)
           in case resolve_path resolve ctx file_path_str of
                Inl e \<Rightarrow> (Inr (error_result e), w)
              | Inr file_path \<Rightarrow>
                  (case path_exists io file_path w of
                     Inl e \<Rightarrow> (Inr (error_result e), w)
                   | Inr False \<Rightarrow>
                       (Inr (error_result (''File not found: '' @ str_path file_path)), w)
                   | Inr True \<Rightarrow>
                       (case read_text io file_path w of
                          Inl e \<Rightarrow> (Inr (error_result e), w)
                        | Inr file_content \<Rightarrow>
                            if \<not> py_in old_string file_content then
                              (Inr (error_result (''Text not found in file: ''
                                                    @ [CHR 0x27] @ take 50 old_string @ ''...''
                                                    @ [CHR 0x27])), w)
                            else if \<not> replace_all \<and> py_count file_content old_string > 1 then
                              (Inr (error_result
                                      (''Text found '' @ str_nat (py_count file_content old_string)
                                         @ '' times. Use replace_all=true or provide more context.'')),
                               w)
                            else
                              (let new_content =
                                     (if replace_all
                                      then py_replace file_content old_string new_string
                                      else replace_first old_string new_string file_content);
                                   replacements =
                                     (if replace_all then py_count file_content old_string else 1)
                               in case write_text io file_path new_content w of
                                    (Some e, w1) \<Rightarrow> (Inr (error_result e), w1)
                                  | (None, w1) \<Rightarrow>
                                      (Inr (success_result
                                              (''Successfully made '' @ str_nat replacements
                                                 @ '' replacement(s) in '' @ str_path file_path)
                                              [(''file_path'', JStr (str_path file_path)),
                                               (''replacements'', JInt (int replacements))]),
                                       w1)))))
      | _ \<Rightarrow> (Inl ''KeyError'', w))"

text \<open>
  A file system for the examples. A path holds a regular file that the process may read
  and write, a directory, or nothing. A file is kept as the text that decoding its
  bytes as UTF-8 gives, with its line ends as they are stored; every text of the model
  can be encoded, so writing does not fail there.
\<close>

datatype FsNode = TextFile string | Directory

type_synonym FileSystem = "Path \<Rightarrow> FsNode option"

text \<open>Text mode with \<open>newline=None\<close>: \<open>\r\n\<close> and \<open>\r\<close> are read as \<open>\n\<close>.\<close>

fun universal_newlines :: "string \<Rightarrow> string" where
  "universal_newlines [] = []"
| "universal_newlines [c] = [if c = CHR 0x0D then CHR 0x0A else c]"
| "universal_newlines (c # d # cs) =
     (if c = CHR 0x0D \<and> d = CHR 0x0A then CHR 0x0A # universal_newlines cs
      else if c = CHR 0x0D then CHR 0x0A # universal_newlines (d # cs)
      else c # universal_newlines (d # cs))"

text \<open>\<open>repr\<close> of a string, as the text of an \<open>OSError\<close> shows the file name.\<close>

definition hex_digit :: "nat \<Rightarrow> char" where
  "hex_digit n = ''0123456789abcdef'' ! (n mod 16)"

definition repr_char :: "char \<Rightarrow> char \<Rightarrow> string" where
  "repr_char q c =
     (let n = (of_char c :: nat)
      in if c = q \<or> c = CHR 0x5C then [CHR 0x5C, c]
         else if c = CHR 0x09 then [CHR 0x5C, CHR ''t'']
         else if c = CHR 0x0A then [CHR 0x5C, CHR ''n'']
         else if c = CHR 0x0D then [CHR 0x5C, CHR ''r'']
         else if n < 32 \<or> n = 127 \<or> (128 \<le> n \<and> n \<le> 160) \<or> n = 173
         then [CHR 0x5C, CHR ''x'', hex_digit (n div 16), hex_digit n]
         else [c])"

definition py_repr :: "string \<Rightarrow> string" where
  "py_repr s =
     (let q = (if CHR 0x27 \<in> set s \<and> CHR 0x22 \<notin> set s then CHR 0x22 else CHR 0x27)
      in [q] @ concat (map (repr_char q) s) @ [q])"

definition os_error :: "string \<Rightarrow> Path \<Rightarrow> string" where
  "os_error what p = what @ '': '' @ py_repr (str_path p)"

definition parent :: "Path \<Rightarrow> Path" where
  "parent p = Path (is_absolute p) (butlast (parts p))"

definition text_io :: "FileSystem FileIO" where
  "text_io =
     \<lparr>path_exists = (\<lambda>p fs. Inr (fs p \<noteq> None)),
      read_text =
        (\<lambda>p fs. case fs p of
                   None \<Rightarrow> Inl (os_error ''[Errno 2] No such file or directory'' p)
                 | Some Directory \<Rightarrow> Inl (os_error ''[Errno 21] Is a directory'' p)
                 | Some (TextFile t) \<Rightarrow> Inr (universal_newlines t)),
      write_text =
        (\<lambda>p t fs. case fs p of
                     Some Directory \<Rightarrow> (Some (os_error ''[Errno 21] Is a directory'' p), fs)
                   | Some (TextFile old) \<Rightarrow> (None, fs(p \<mapsto> TextFile t))
                   | None \<Rightarrow>
                       (case fs (parent p) of
                          Some Directory \<Rightarrow> (None, fs(p \<mapsto> TextFile t))
                        | Some (TextFile other) \<Rightarrow>
                            (Some (os_error ''[Errno 20] Not a directory'' p), fs)
                        | None \<Rightarrow>
                            (Some (os_error ''[Errno 2] No such file or directory'' p), fs)))\<rparr>"

section \<open>Example values\<close>

definition example_ctx :: ToolContext where
  "example_ctx =
     \<lparr>workspace_path = Path True [''ws''], ctx_session_id = ''s1'', ctx_user_id = None,
      allowed_paths = [Path True [''opt'', ''data'']], environment = [], timeout = 30\<rparr>"

definition example_permission :: "nat PendingPermission" where
  "example_permission =
     \<lparr>pp_id = ''perm-1'', pp_session_id = ''s1'', pp_tool_name = ''write_file'',
      pp_arguments = JObj [(''file_path'', JStr ''a.txt''), (''content'', JStr ''hi'')],
      pp_description = ''write_file: a.txt'', pp_created_at = 7, pp_callback = None\<rparr>"

definition example_service :: "nat ToolExecutionService" where
  "example_service =
     \<lparr>svc_workspace_path = Path True [''ws''], svc_session_id = ''s1'', svc_user_id = None,
      svc_allowed_paths = [], svc_environment = [],
      pending_permissions = [(''perm-1'', example_permission)],
      approved_tools = {}, always_approved = {},
      on_permission_request = None, on_tool_start = None, on_tool_complete = None\<rparr>"

text \<open>
  A message list in which the assistant message with a tool use appears twice, once
  before and once after the message that carries the tool result.
\<close>

definition dup_assistant :: ConversationMessage where
  "dup_assistant =
     \<lparr>msg_id = ''m1'', msg_role = ASSISTANT, msg_content = ''editing'',
      tool_uses = [\<lparr>tu_id = ''t1'', tu_name = ''write_file'', tu_arguments = JObj []\<rparr>],
      tool_results = [], tokens_used = None, msg_created_at = 1, msg_metadata = []\<rparr>"

definition dup_results :: ConversationMessage where
  "dup_results =
     \<lparr>msg_id = ''m2'', msg_role = USER, msg_content = [], tool_uses = [],
      tool_results = [\<lparr>tool_use_id = ''t1'', content = ''ok'', is_error = False\<rparr>],
      tokens_used = None, msg_created_at = 2, msg_metadata = []\<rparr>"

definition dup_conversation :: Conversation where
  "dup_conversation =
     \<lparr>session_id = ''s1'', messages = [dup_assistant, dup_results, dup_assistant],
      system_prompt = None, model = ''m'', provider_name = ''anthropic'', conv_created_at = 0,
      updated_at = 2, conv_metadata = [], total_input_tokens = 0, total_output_tokens = 0\<rparr>"

text \<open>
  A small installation for worked runs. The world is a counter: \<open>uuid4\<close> returns a
  string of letters, one longer each time, and advances it, the clock reads it. Two tools are
  registered, \<open>read_file\<close> without and \<open>write_file\<close> with the permission flag.
\<close>

definition example_read_tool :: "nat Tool" where
  "example_read_tool =
     \<lparr>t_name = ''read_file'', requires_permission = False, validate_arguments = (\<lambda>a. None),
      execute = (\<lambda>a ctx w. (Inr (success_result ''     1 hello'' []), w))\<rparr>"

definition example_write_tool :: "nat Tool" where
  "example_write_tool =
     \<lparr>t_name = ''write_file'', requires_permission = True, validate_arguments = (\<lambda>a. None),
      execute = (\<lambda>a ctx w. (Inr (success_result ''Successfully wrote'' []), w))\<rparr>"

definition example_runtime :: "nat Runtime" where
  "example_runtime =
     \<lparr>get_tool = (\<lambda>n. if n = ''read_file'' then Some example_read_tool
                       else if n = ''write_file'' then Some example_write_tool else None),
      uuid4 = (\<lambda>w. (replicate (Suc w) (CHR ''u''), Suc w)),
      utcnow = (\<lambda>w. (w, w)),
      py_str = (\<lambda>j. ''{}'')\<rparr>"

definition write_use :: ToolUse where
  "write_use =
     \<lparr>tu_id = ''toolu_1'', tu_name = ''write_file'',
      tu_arguments = JObj [(''file_path'', JStr ''a.txt''), (''content'', JStr ''hi'')]\<rparr>"

text \<open>
  Scenario D of the specification: the first provider round streams the text deltas
  \<open>Hel\<close>, \<open>lo\<close> and one \<open>write_file\<close> tool use; later rounds stream the text \<open>Done\<close>.
\<close>

definition scenario_d_provider ::
  "Conversation \<Rightarrow> nat \<Rightarrow> (StreamEvent list \<times> string option) \<times> nat" where
  "scenario_d_provider conv w =
     (if list_ex (\<lambda>m. tool_results m \<noteq> []) (messages conv)
      then (([(stream_ev TEXT_DELTA)\<lparr>se_text := Some ''Done''\<rparr>, stream_ev MESSAGE_END], None), w)
      else (([(stream_ev TEXT_DELTA)\<lparr>se_text := Some ''Hel''\<rparr>,
              (stream_ev TEXT_DELTA)\<lparr>se_text := Some ''lo''\<rparr>,
              (stream_ev TOOL_USE_START)\<lparr>se_tool_use_id := Some ''toolu_1'',
                                          se_tool_name := Some ''write_file''\<rparr>,
              (stream_ev TOOL_USE_END)\<lparr>se_tool_use := Some write_use\<rparr>,
              stream_ev MESSAGE_END], None), w))"

definition empty_conversation :: Conversation where
  "empty_conversation =
     \<lparr>session_id = ''s1'', messages = [], system_prompt = None, model = ''claude'',
      provider_name = ''anthropic'', conv_created_at = 0, updated_at = 0, conv_metadata = [],
      total_input_tokens = 0, total_output_tokens = 0\<rparr>"

definition fresh_service :: "nat ToolExecutionService" where
  "fresh_service =
     \<lparr>svc_workspace_path = Path True [''ws''], svc_session_id = ''s1'', svc_user_id = None,
      svc_allowed_paths = [], svc_environment = [], pending_permissions = [],
      approved_tools = {}, always_approved = {},
      on_permission_request = None, on_tool_start = None, on_tool_complete = None\<rparr>"

definition scenario_d_handler :: "nat StreamingHandler" where
  "scenario_d_handler =
     \<lparr>provider = scenario_d_provider, conversation = empty_conversation,
      tool_service = fresh_service, max_tool_iterations = 10\<rparr>"

text \<open>Scenario D after the user message, after the assistant message, and suspended.\<close>

definition scenario_d_started :: "nat StreamingHandler" where
  "scenario_d_started =
     scenario_d_handler\<lparr>conversation := add_user_message empty_conversation ''u'' 1 1 ''go''\<rparr>"

definition scenario_d_assistant :: Conversation where
  "scenario_d_assistant =
     add_assistant_message (conversation scenario_d_started) ''uu'' 2 2 ''Hello''
       (Some [write_use]) None"

definition scenario_d_permission :: "nat PendingPermission" where
  "scenario_d_permission =
     \<lparr>pp_id = ''uuu'', pp_session_id = ''s1'', pp_tool_name = ''write_file'',
      pp_arguments = tu_arguments write_use, pp_description = ''write_file: a.txt'',
      pp_created_at = 3, pp_callback = None\<rparr>"

definition scenario_d_suspended :: "nat StreamingHandler" where
  "scenario_d_suspended =
     scenario_d_handler
       \<lparr>conversation := scenario_d_assistant,
        tool_service := fresh_service\<lparr>pending_permissions := [(''uuu'', scenario_d_permission)]\<rparr>\<rparr>"

definition scenario_d_stream_events :: "SSEEvent list" where
  "scenario_d_stream_events =
     [sse SSE_MESSAGE ''s1'' [(''role'', JStr ''user''), (''content'', JStr ''go'')],
      status_event ''s1'' ''thinking'',
      sse SSE_STREAM_CHUNK ''s1'' [(''content'', JStr ''Hel''), (''accumulated'', JStr ''Hel'')],
      sse SSE_STREAM_CHUNK ''s1'' [(''content'', JStr ''lo''), (''accumulated'', JStr ''Hello'')],
      sse SSE_TOOL_CALL ''s1''
        [(''status'', JStr ''started''), (''tool_id'', JStr ''toolu_1''),
         (''tool_name'', JStr ''write_file'')],
      sse SSE_TOOL_CALL ''s1''
        [(''status'', JStr ''complete''), (''tool_id'', JStr ''toolu_1''),
         (''tool_name'', JStr ''write_file''), (''arguments'', tu_arguments write_use)]]"

text \<open>
  A provider that asks for one \<open>read_file\<close> per round while the conversation has fewer
  than 25 messages and then answers \<open>Done\<close>, and the suspended run of scenario D with
  that provider.
\<close>

definition read_use :: ToolUse where
  "read_use =
     \<lparr>tu_id = ''toolu_r'', tu_name = ''read_file'',
      tu_arguments = JObj [(''file_path'', JStr ''a.txt'')]\<rparr>"

definition busy_provider ::
  "Conversation \<Rightarrow> nat \<Rightarrow> (StreamEvent list \<times> string option) \<times> nat" where
  "busy_provider conv w =
     (if length (messages conv) < 25
      then (([(stream_ev TOOL_USE_END)\<lparr>se_tool_use := Some read_use\<rparr>], None), w)
      else (([(stream_ev TEXT_DELTA)\<lparr>se_text := Some ''Done''\<rparr>], None), w))"

definition busy_suspended :: "nat StreamingHandler" where
  "busy_suspended = scenario_d_suspended\<lparr>provider := busy_provider\<rparr>"

text \<open>
  An SSE connection that is connected and has sent nothing yet, and an HTTP response
  with status 500.
\<close>

definition sse_connected :: MCPConnection where
  "sse_connected =
     (new_connection SSE ''remote'' [(''server_type'', JStr ''sse''), (''endpoint'', JStr ''http://mcp'')])
       \<lparr>state := CONNECTED, has_transport := True\<rparr>"

definition stdio_connected :: MCPConnection where
  "stdio_connected =
     (new_connection Stdio ''local'' [(''server_type'', JStr ''stdio''), (''command'', JStr ''mcp-server'')])
       \<lparr>state := CONNECTED, has_transport := True\<rparr>"

definition server_error_response :: HttpResponse where
  "server_error_response = \<lparr>status_code = 500, content_type = ''text/plain'', body = []\<rparr>"

text \<open>
  A world in which every subprocess starts and every handshake succeeds, and a stdio
  configuration without a command.
\<close>

definition friendly_env :: "nat McpEnv" where
  "friendly_env =
     \<lparr>establish = (\<lambda>c w. ((Initialized True, c\<lparr>has_transport := True, request_id := 2\<rparr>), w)),
      discover = (\<lambda>c w. (c\<lparr>request_id := request_id c + 3\<rparr>, w)),
      teardown = (\<lambda>c w. (None, w)),
      clock = (\<lambda>w. (w, Suc w)),
      str_of = (\<lambda>j. case j of JStr s \<Rightarrow> s | _ \<Rightarrow> ''?''),
      not_container =
        (\<lambda>j. ''argument of type '' @ [CHR 0x27]
               @ (case j of JBool b \<Rightarrow> ''bool'' | JInt i \<Rightarrow> ''int'' | _ \<Rightarrow> ''NoneType'')
               @ [CHR 0x27] @ '' is not iterable'')\<rparr>"

definition good_config :: "(string \<times> json) list" where
  "good_config = [(''server_type'', JStr ''stdio''), (''command'', JStr ''mcp-server'')]"

definition no_command_config :: "(string \<times> json) list" where
  "no_command_config = [(''server_type'', JStr ''stdio''), (''command'', JStr [])]"

text \<open>
  A stand-in for \<open>json.loads\<close>: it parses the text \<open>{"n":1}\<close>, raises \<open>RecursionError\<close>
  on the object \<open>{"a":{"a": ... 1 ... }}\<close> nested 100000 deep, and rejects every other
  text. And the first text in three fragments, with a \<open>ping\<close> event between them.
\<close>

definition example_text :: string where
  "example_text = ''{'' @ [CHR 0x22] @ ''n'' @ [CHR 0x22] @ '':1}''"

definition deep_text :: string where
  "deep_text =
     concat (replicate 100000 (''{'' @ [CHR 0x22] @ ''a'' @ [CHR 0x22] @ '':''))
     @ ''1'' @ replicate 100000 (CHR ''}'')"

definition example_loads :: "string \<Rightarrow> LoadsResult" where
  "example_loads s =
     (if s = deep_text
      then OtherError
             ''maximum recursion depth exceeded while decoding a JSON object from a unicode string''
      else if s = example_text then Parsed (JObj [(''n'', JInt 1)])
      else JSONDecodeError)"

definition example_deltas :: "ApiEvent list" where
  "example_deltas =
     [ContentBlockDelta (Some (InputJsonDelta ''{'')), OtherEvent,
      ContentBlockDelta (Some (InputJsonDelta ([CHR 0x22] @ ''n'' @ [CHR 0x22]))),
      ContentBlockDelta (Some (InputJsonDelta '':1}''))]"

definition idle_tracking :: ToolTracking where
  "idle_tracking = \<lparr>current_tool_id = None, current_tool_name = None, current_tool_input = []\<rparr>"

text \<open>A workspace with one file in which \<open>foo\<close> occurs three times.\<close>

definition example_fs :: FileSystem where
  "example_fs = Map.empty(Path True [''ws'', ''a.txt''] \<mapsto> TextFile ''foo bar foo baz foo'')"

definition edit_arguments :: "bool \<Rightarrow> json" where
  "edit_arguments all =
     JObj [(''file_path'', JStr ''a.txt''), (''old_string'', JStr ''foo''),
           (''new_string'', JStr ''qux''), (''replace_all'', JBool all)]"











text \<open>
  A file with DOS line ends, and arguments that ask to replace the DOS line end.
\<close>

definition crlf_text :: string where
  "crlf_text =
     ''a'' @ [CHR 0x0D, CHR 0x0A] @ ''b'' @ [CHR 0x0D, CHR 0x0A] @ ''c'' @ [CHR 0x0D, CHR 0x0A]"

definition crlf_fs :: FileSystem where
  "crlf_fs = Map.empty(Path True [''ws'', ''a.txt''] \<mapsto> TextFile crlf_text)"

definition crlf_arguments :: "bool \<Rightarrow> json" where
  "crlf_arguments all =
     JObj [(''file_path'', JStr ''a.txt''), (''old_string'', JStr [CHR 0x0D, CHR 0x0A]),
           (''new_string'', JStr ''; ''), (''replace_all'', JBool all)]"

text \<open>
  A connection registered under the name \<open>srv\<close>, and a world in which its subprocess
  has exited: \<open>terminate()\<close> raises \<open>ProcessLookupError\<close>, whose text is empty.
\<close>

definition registered_srv :: MCPConnection where
  "registered_srv =
     (new_connection Stdio ''srv'' good_config)\<lparr>state := CONNECTED, has_transport := True\<rparr>"

definition exited_env :: "nat McpEnv" where
  "exited_env = friendly_env\<lparr>teardown := (\<lambda>c w. (Some [], w))\<rparr>"

text \<open>
  The same file system on a full device: opening the file for writing truncates it, and
  the write raises.
\<close>

definition full_device_io :: "FileSystem FileIO" where
  "full_device_io =
     text_io\<lparr>write_text :=
               (\<lambda>p t fs. (Some ''[Errno 28] No space left on device'', fs(p \<mapsto> TextFile [])))\<rparr>"

section \<open>Containment of resolved paths\<close>











section \<open>Responding to a permission request\<close>

text \<open>
  C10. \<open>respond_permission\<close> on an id that is not pending returns False and changes
  nothing. On a pending id it returns True and removes that entry and no other; the tool
  name joins the always-approved set when approved with \<open>always\<close>, the session-approved
  set when approved without it, and neither set changes on a denial. No other field of
  the service changes.
\<close>

theorem respond_permission_frame:
  "(map_of (pending_permissions svc) pid = None \<longrightarrow>
      respond_permission svc pid approved always w = (False, svc, w))
   \<and> (\<forall>permission. map_of (pending_permissions svc) pid = Some permission \<longrightarrow>
        (\<exists>svc' w'. respond_permission svc pid approved always w = (True, svc', w')
           \<and> pending_permissions svc' = AList.delete pid (pending_permissions svc)
           \<and> map_of (pending_permissions svc') pid = None
           \<and> (\<forall>k. k \<noteq> pid \<longrightarrow>
                 map_of (pending_permissions svc') k = map_of (pending_permissions svc) k)
           \<and> always_approved svc' =
                (if approved \<and> always
                 then insert (pp_tool_name permission) (always_approved svc)
                 else always_approved svc)
           \<and> approved_tools svc' =
                (if approved \<and> \<not> always
                 then insert (pp_tool_name permission) (approved_tools svc)
                 else approved_tools svc)
           \<and> svc' = svc\<lparr>pending_permissions := pending_permissions svc',
                         approved_tools := approved_tools svc',
                         always_approved := always_approved svc'\<rparr>))"
  by (simp add: respond_permission_def Let_def delete_conv)

theorem respond_permission_frame_witness:
  "map_of (pending_permissions example_service) ''nope'' = None
   \<and> respond_permission example_service ''nope'' True True (0::nat) = (False, example_service, 0)
   \<and> map_of (pending_permissions example_service) ''perm-1'' = Some example_permission
   \<and> (\<exists>svc'. respond_permission example_service ''perm-1'' True False (0::nat) = (True, svc', 0)
        \<and> pending_permissions svc' = [] \<and> approved_tools svc' = {''write_file''}
        \<and> always_approved svc' = {})
   \<and> (\<exists>svc'. respond_permission example_service ''perm-1'' False True (0::nat) = (True, svc', 0)
        \<and> pending_permissions svc' = [] \<and> approved_tools svc' = {}
        \<and> always_approved svc' = {})"
proof -
  have absent: "map_of (pending_permissions example_service) ''nope'' = None"
    by (simp add: example_service_def)
  have present: "map_of (pending_permissions example_service) ''perm-1'' = Some example_permission"
    by (simp add: example_service_def)
  have a: "respond_permission example_service ''nope'' True True (0::nat) = (False, example_service, 0)"
    using respond_permission_frame [of example_service "''nope''" True True 0] absent by simp
  from respond_permission_frame [of example_service "''perm-1''" True False 0] present
  obtain s1 w1 where b:
     "respond_permission example_service ''perm-1'' True False (0::nat) = (True, s1, w1)"
     "pending_permissions s1 = AList.delete ''perm-1'' (pending_permissions example_service)"
     "always_approved s1 = always_approved example_service"
     "approved_tools s1 = insert (pp_tool_name example_permission) (approved_tools example_service)"
    by auto
  have w1: "w1 = 0"
    using b(1) by (simp add: respond_permission_def example_service_def example_permission_def)
  from respond_permission_frame [of example_service "''perm-1''" False True 0] present
  obtain s2 w2 where c:
     "respond_permission example_service ''perm-1'' False True (0::nat) = (True, s2, w2)"
     "pending_permissions s2 = AList.delete ''perm-1'' (pending_permissions example_service)"
     "always_approved s2 = always_approved example_service"
     "approved_tools s2 = approved_tools example_service"
    by auto
  have w2: "w2 = 0"
    using c(1) by (simp add: respond_permission_def example_service_def example_permission_def)
  show ?thesis using absent present a b c w1 w2
    by (simp add: example_service_def example_permission_def)
qed

section \<open>Pending tool uses of a conversation\<close>

lemma find_skip:
  "\<forall>m \<in> set xs. \<not> P m \<Longrightarrow> find P (xs @ ys) = find P ys"
  by (induction xs) auto

lemma find_rev_last:
  "P a \<Longrightarrow> \<forall>m \<in> set post. \<not> P m \<Longrightarrow> find P (rev post @ a # rev pre) = Some a"
  by (simp add: find_skip)

lemma list_index_fresh:
  "a \<notin> set pre \<Longrightarrow> list_index (pre @ a # post) a = Some (length pre)"
  by (induction pre) auto

lemma list_index_le:
  "list_index (pre @ a # post) a = Some i \<Longrightarrow> i \<le> length pre"
proof (induction pre arbitrary: i)
  case Nil
  then show ?case by simp
next
  case (Cons x pre)
  then show ?case by (auto split: if_splits)
qed

lemma list_index_mem: "x \<in> set xs \<Longrightarrow> \<exists>i. list_index xs x = Some i"
  by (induction xs) auto

text \<open>
  When the last assistant message \<open>a\<close> is not equal to any earlier message (message ids
  from \<open>uuid4\<close> are distinct), the result is as intended: its tool uses while no later
  message carries tool results, the empty list afterwards.
\<close>

lemma get_pending_tool_uses_position:
  assumes "messages conv = pre @ a # post"
    and "msg_role a = ASSISTANT" and "\<forall>m \<in> set post. msg_role m \<noteq> ASSISTANT"
    and "tool_uses a \<noteq> []" and "a \<notin> set pre"
  shows "get_pending_tool_uses conv =
           Inr (if \<exists>m \<in> set post. tool_results m \<noteq> [] then [] else tool_uses a)"
  using assms
  by (simp add: get_pending_tool_uses_def get_last_assistant_message_def find_rev_last
       list_index_fresh list_ex_iff)

text \<open>Once a later message carries tool results the result is empty, duplicates or not.\<close>

lemma get_pending_tool_uses_answered:
  assumes "messages conv = pre @ a # post"
    and "msg_role a = ASSISTANT" and "\<forall>m \<in> set post. msg_role m \<noteq> ASSISTANT"
    and "\<exists>m \<in> set post. tool_results m \<noteq> []"
  shows "get_pending_tool_uses conv = Inr []"
proof -
  have la: "get_last_assistant_message conv = Some a"
    using assms by (simp add: get_last_assistant_message_def find_rev_last)
  obtain i where i: "list_index (pre @ a # post) a = Some i"
    using list_index_mem[of a "pre @ a # post"] by auto
  have "i \<le> length pre" using i by (rule list_index_le)
  then obtain k where k: "length pre = i + k" using le_Suc_ex by blast
  have "\<exists>zs. drop (i + 1) (pre @ a # post) = zs @ post"
  proof (cases k)
    case 0
    then show ?thesis using k by simp
  next
    case (Suc j)
    then have "drop (i + 1) (pre @ a # post) = drop (i + 1) pre @ [a] @ post"
      using k by simp
    then show ?thesis by (metis append.assoc)
  qed
  then obtain zs where zs: "drop (i + 1) (messages conv) = zs @ post"
    using assms(1) by auto
  have ex: "list_ex (\<lambda>msg. tool_results msg \<noteq> []) (drop (i + 1) (messages conv))"
    unfolding zs list_ex_iff using assms(4) by auto
  show ?thesis
    using la i ex assms(1) by (simp add: get_pending_tool_uses_def)
qed

text \<open>
  C7. In a conversation whose message ids are distinct (the identity of a message), let
  \<open>a\<close> be the last assistant message and let it carry tool uses. While no later message
  carries tool results, \<open>get_pending_tool_uses\<close> returns exactly the tool uses of \<open>a\<close>;
  once \<open>add_tool_results\<close> has appended a message with tool results, it returns the
  empty list.
\<close>

theorem get_pending_tool_uses_last_assistant:
  assumes ids: "distinct (map msg_id (messages conv))"
    and split: "messages conv = pre @ a # post"
    and role: "msg_role a = ASSISTANT"
    and final: "\<forall>m \<in> set post. msg_role m \<noteq> ASSISTANT"
    and uses: "tool_uses a \<noteq> []"
  shows "((\<forall>m \<in> set post. tool_results m = []) \<longrightarrow>
            get_pending_tool_uses conv = Inr (tool_uses a))
       \<and> (\<forall>new_id created now results. results \<noteq> [] \<longrightarrow>
            get_pending_tool_uses (add_tool_results conv new_id created now results) = Inr [])"
proof -
  have "msg_id a \<notin> msg_id ` set pre" using ids split by auto
  then have fresh: "a \<notin> set pre" by blast
  have first: "(\<forall>m \<in> set post. tool_results m = []) \<longrightarrow>
            get_pending_tool_uses conv = Inr (tool_uses a)"
    using get_pending_tool_uses_position[OF split role final uses fresh] by simp
  have second: "get_pending_tool_uses (add_tool_results conv new_id created now results) = Inr []"
    if ne: "results \<noteq> []" for new_id created now results
  proof -
    let ?m = "\<lparr>msg_id = new_id, msg_role = USER, msg_content = [], tool_uses = [],
                tool_results = results, tokens_used = None, msg_created_at = created,
                msg_metadata = []\<rparr>"
    have s: "messages (add_tool_results conv new_id created now results) = pre @ a # (post @ [?m])"
      using split by (simp add: add_tool_results_def)
    have f: "\<forall>m \<in> set (post @ [?m]). msg_role m \<noteq> ASSISTANT" using final by simp
    have e: "\<exists>m \<in> set (post @ [?m]). tool_results m \<noteq> []" using ne by simp
    show ?thesis by (rule get_pending_tool_uses_answered[OF s role f e])
  qed
  show ?thesis using first second by blast
qed

theorem get_pending_tool_uses_last_assistant_witness:
  "distinct (map msg_id (messages scenario_d_assistant))
   \<and> get_pending_tool_uses scenario_d_assistant = Inr [write_use]
   \<and> get_pending_tool_uses
        (add_tool_results scenario_d_assistant ''uuu'' 3 3 [llm_result ''toolu_1'' ''ok'' False])
      = Inr []"
proof -
  let ?u = "\<lparr>msg_id = ''u'', msg_role = USER, msg_content = ''go'', tool_uses = [],
             tool_results = [], tokens_used = None, msg_created_at = 1, msg_metadata = []\<rparr>"
  let ?a = "\<lparr>msg_id = ''uu'', msg_role = ASSISTANT, msg_content = ''Hello'',
             tool_uses = [write_use], tool_results = [], tokens_used = None,
             msg_created_at = 2, msg_metadata = []\<rparr>"
  have split: "messages scenario_d_assistant = [?u] @ ?a # []"
    by (simp add: scenario_d_assistant_def scenario_d_started_def scenario_d_handler_def
        add_assistant_message_def add_user_message_def empty_conversation_def)
  have ids: "distinct (map msg_id (messages scenario_d_assistant))"
    unfolding split by simp
  have role: "msg_role ?a = ASSISTANT" by simp
  have final: "\<forall>m \<in> set []. msg_role m \<noteq> ASSISTANT" by simp
  have uses: "tool_uses ?a \<noteq> []" by simp
  have res: "[llm_result ''toolu_1'' ''ok'' False] \<noteq> []" by simp
  show ?thesis
    using get_pending_tool_uses_last_assistant[OF ids split role final uses] ids res
    by simp
qed

text \<open>
  The distinct ids matter: \<open>list.index\<close> compares by value. In \<open>dup_conversation\<close> the
  last assistant message equals the first message, and the tool results that follow the
  first one count as its answer.
\<close>

lemma get_pending_tool_uses_repeated_message:
  "get_last_assistant_message dup_conversation = Some (messages dup_conversation ! 2)
   \<and> tool_uses (messages dup_conversation ! 2)
        = [\<lparr>tu_id = ''t1'', tu_name = ''write_file'', tu_arguments = JObj []\<rparr>]
   \<and> drop 3 (messages dup_conversation) = []
   \<and> get_pending_tool_uses dup_conversation = Inr []"
  by (simp add: get_pending_tool_uses_def get_last_assistant_message_def dup_conversation_def
      dup_assistant_def dup_results_def)

section \<open>Suspension of a run on a pending permission\<close>










section \<open>Continuing after a denial\<close>

lemma delete_absent: "map_of xs k = None \<Longrightarrow> AList.delete k xs = xs"
  by (induction xs) (auto simp: AList.delete_eq split: if_splits)

lemma find_after_delete:
  "\<forall>(k, p) \<in> set xs. pp_id p = k
   \<Longrightarrow> find (\<lambda>p. pp_id p = pid) (map snd (AList.delete pid xs)) = None"
  by (induction xs) (auto simp: AList.delete_eq)

text \<open>
  The pending dict is keyed by the permission's own id (\<open>request_permission\<close> stores
  \<open>permission\<close> under \<open>permission.id\<close>). Then a denial finds nothing to report:
  \<open>respond_permission\<close> has already removed the entry that the loop looks for.
\<close>

lemma denial_reports_status_only:
  assumes keyed: "\<forall>(k, p) \<in> set (pending_permissions (tool_service h)). pp_id p = k"
  shows "continue_after_permission fuel rt h pid False always w =
           Some \<lparr>emitted = [status_event (session_id (conversation h)) ''permission_denied''],
                 ending = Returned,
                 handler = h\<lparr>tool_service := (tool_service h)
                              \<lparr>pending_permissions :=
                                 AList.delete pid (pending_permissions (tool_service h))\<rparr>\<rparr>,
                 world = w\<rparr>"
proof (cases "map_of (pending_permissions (tool_service h)) pid")
  case None
  then have r: "respond_permission (tool_service h) pid False always w = (False, tool_service h, w)"
    by (simp add: respond_permission_def)
  have f: "find (\<lambda>p. pp_id p = pid) (get_pending_permissions (tool_service h)) = None"
    using find_after_delete[OF keyed, of pid] delete_absent[OF None]
    by (simp add: get_pending_permissions_def)
  show ?thesis
    using r f delete_absent[OF None]
    by (simp add: continue_after_permission_def Let_def)
next
  case (Some p)
  let ?svc = "(tool_service h)\<lparr>pending_permissions :=
                 AList.delete pid (pending_permissions (tool_service h))\<rparr>"
  have r: "respond_permission (tool_service h) pid False always w = (True, ?svc, w)"
    using Some by (simp add: respond_permission_def)
  have f: "find (\<lambda>p. pp_id p = pid) (get_pending_permissions ?svc) = None"
    using find_after_delete[OF keyed, of pid] by (simp add: get_pending_permissions_def)
  show ?thesis
    using r f by (simp add: continue_after_permission_def Let_def)
qed

text \<open>
  C2. The suspended run of scenario D, denied: the only event is the
  \<open>permission_denied\<close> status, and the conversation is the one before the call, so no
  tool result is recorded or emitted for the denied call. The run returns without
  calling the provider.
\<close>

theorem denial_records_no_tool_result:
  "continue_after_permission fuel example_runtime scenario_d_suspended ''uuu'' False False 3 =
     Some \<lparr>emitted = [status_event ''s1'' ''permission_denied''],
           ending = Returned,
           handler = scenario_d_suspended\<lparr>tool_service := fresh_service\<rparr>,
           world = 3\<rparr>
   \<and> conversation (scenario_d_suspended\<lparr>tool_service := fresh_service\<rparr>)
       = conversation scenario_d_suspended
   \<and> map tool_results (messages (conversation scenario_d_suspended)) = [[], []]"
  by (simp add: continue_after_permission_def respond_permission_def get_pending_permissions_def
      scenario_d_suspended_def scenario_d_handler_def scenario_d_assistant_def
      scenario_d_started_def scenario_d_permission_def fresh_service_def
      add_assistant_message_def add_user_message_def empty_conversation_def Let_def)

section \<open>The number of provider rounds\<close>

lemma provider_rounds_append [simp]:
  "provider_rounds (xs @ ys) = provider_rounds xs + provider_rounds ys"
  by (simp add: provider_rounds_def)

lemma provider_rounds_thinking [simp]: "provider_rounds [status_event sid ''thinking''] = 1"
  by (simp add: provider_rounds_def is_thinking_def status_event_def sse_def)

lemma stream_event_no_thinking:
  "stream_event sid e acc tus conv = (stop, acc1, tus1, conv1, new) \<Longrightarrow> provider_rounds new = 0"
  by (auto simp: stream_event_def sse_def provider_rounds_def is_thinking_def
      split: if_splits option.splits)

lemma process_stream_rounds:
  "process_stream sid evs acc tus conv out = (err, acc1, tus1, conv1, out1)
   \<Longrightarrow> provider_rounds out1 = provider_rounds out"
proof (induction evs arbitrary: acc tus conv out)
  case Nil
  then show ?case by simp
next
  case (Cons e es)
  obtain stop a t c new where se: "stream_event sid e acc tus conv = (stop, a, t, c, new)"
    by (metis prod_cases5)
  have z: "provider_rounds new = 0" using se by (rule stream_event_no_thinking)
  show ?case
  proof (cases stop)
    case True
    then show ?thesis using Cons.prems se z by auto
  next
    case False
    then have "process_stream sid es a t c (out @ new) = (err, acc1, tus1, conv1, out1)"
      using Cons.prems se by simp
    from Cons.IH[OF this] show ?thesis using z by simp
  qed
qed

lemma provider_rounds_Nil: "provider_rounds [] = 0"
  by (simp add: provider_rounds_def)

lemma provider_rounds_Cons:
  "provider_rounds (x # xs) = (if is_thinking x then Suc (provider_rounds xs) else provider_rounds xs)"
  by (simp add: provider_rounds_def)

lemma not_thinking:
  "\<not> is_thinking (status_event sid ''executing_tools'')"
  "\<not> is_thinking (waiting_permission_event sid n)"
  "\<not> is_thinking (sse SSE_ERROR sid d)"
  "\<not> is_thinking (sse SSE_MESSAGE sid d)"
  "\<not> is_thinking (assistant_message_event sid t)"
  "\<not> is_thinking (complete_event sid c)"
  "\<not> is_thinking (tool_result_event sid r)"
  by (simp_all add: is_thinking_def status_event_def waiting_permission_event_def
      assistant_message_event_def complete_event_def tool_result_event_def sse_def)

lemmas other_events_rounds = provider_rounds_Nil provider_rounds_Cons not_thinking

lemma tool_result_events_rounds: "provider_rounds (map (tool_result_event sid) rs) = 0"
  by (induction rs) (simp_all add: other_events_rounds)

lemma process_round_rounds:
  "process_round rt h w out = Exit r \<Longrightarrow> provider_rounds (emitted r) = provider_rounds out + 1"
  "process_round rt h w out = Continue t h1 w1 out1
     \<Longrightarrow> provider_rounds out1 = provider_rounds out + 1
         \<and> max_tool_iterations h1 = max_tool_iterations h"
  "process_round rt h w out = Break t h1 w1 out1 \<Longrightarrow> provider_rounds out1 = provider_rounds out + 1"
proof -
  obtain evs exc w0 where resp: "provider h (conversation h) w = ((evs, exc), w0)"
    by (metis prod.exhaust)
  obtain err tx tus c o2 where strm:
    "process_stream (session_id (conversation h)) evs [] [] (conversation h)
       (out @ [status_event (session_id (conversation h)) ''thinking'']) = (err, tx, tus, c, o2)"
    by (metis prod_cases5)
  have o2: "provider_rounds o2 = provider_rounds out + 1"
    using process_stream_rounds[OF strm] by simp
  show "process_round rt h w out = Exit r \<Longrightarrow> provider_rounds (emitted r) = provider_rounds out + 1"
    using resp strm o2
    by (auto simp: process_round_def Let_def other_events_rounds
        split: prod.splits if_splits option.splits)
  show "process_round rt h w out = Continue t h1 w1 out1
     \<Longrightarrow> provider_rounds out1 = provider_rounds out + 1
         \<and> max_tool_iterations h1 = max_tool_iterations h"
    using resp strm o2
    by (auto simp: process_round_def Let_def other_events_rounds tool_result_events_rounds
        split: prod.splits if_splits option.splits)
  show "process_round rt h w out = Break t h1 w1 out1 \<Longrightarrow> provider_rounds out1 = provider_rounds out + 1"
    using resp strm o2
    by (auto simp: process_round_def Let_def
        split: prod.splits if_splits option.splits)
qed

lemma finish_rounds: "provider_rounds (emitted (finish acc h w out)) = provider_rounds out"
  by (simp add: finish_def other_events_rounds split: option.splits)

lemma process_prompt_loop_rounds:
  "provider_rounds (emitted (process_prompt_loop rt iteration acc h w out))
     \<le> provider_rounds out + nat (max_tool_iterations h - iteration)"
proof (induction rt iteration acc h w out rule: process_prompt_loop.induct)
  case (1 rt iteration acc h w out)
  show ?case
  proof (cases "iteration < max_tool_iterations h")
    case False
    then show ?thesis
      by (subst process_prompt_loop.simps) (simp add: finish_rounds)
  next
    case True
    then have pos: "nat (max_tool_iterations h - iteration)
                    = Suc (nat (max_tool_iterations h - (iteration + 1)))"
      by simp
    show ?thesis
    proof (cases "process_round rt h w out")
      case (Exit r)
      then show ?thesis
        using True process_round_rounds(1)[OF Exit]
        by (subst process_prompt_loop.simps) simp
    next
      case (Continue t h1 w1 out1)
      have "provider_rounds (emitted (process_prompt_loop rt (iteration + 1) (Some t) h1 w1 out1))
              \<le> provider_rounds out1 + nat (max_tool_iterations h1 - (iteration + 1))"
        using "1.IH"[OF True Continue] .
      then show ?thesis
        using True Continue process_round_rounds(2)[OF Continue] pos
        by (subst process_prompt_loop.simps) simp
    next
      case (Break t h1 w1 out1)
      then show ?thesis
        using True process_round_rounds(3)[OF Break]
        by (subst process_prompt_loop.simps) (simp add: finish_rounds)
    qed
  qed
qed

text \<open>The loop of \<open>process_prompt\<close> itself keeps to the bound.\<close>

lemma process_prompt_rounds_bounded:
  "provider_rounds (emitted (process_prompt rt h prompt w)) \<le> nat (max_tool_iterations h)"
proof -
  obtain c w1 where a: "conv_add_user_message rt (conversation h) prompt w = (c, w1)"
    by (metis prod.exhaust)
  have "provider_rounds [sse SSE_MESSAGE (session_id (conversation h))
                           [(''role'', JStr ''user''), (''content'', JStr prompt)]] = 0"
    by (simp add: other_events_rounds)
  then show ?thesis
    using process_prompt_loop_rounds[of rt 0 None "h\<lparr>conversation := c\<rparr>" w1
            "[sse SSE_MESSAGE (session_id (conversation h))
                [(''role'', JStr ''user''), (''content'', JStr prompt)]]"] a
    by (simp add: process_prompt_def Let_def)
qed

lemma busy_step:
  assumes "provider h = busy_provider" and "length (messages (conversation h)) < 25"
  shows "\<exists>h' w'. continue_conversation (Suc n) example_runtime h w out
                    = continue_conversation n example_runtime h' w'
                        (out @ [status_event (session_id (conversation h)) ''thinking''])
           \<and> provider h' = busy_provider
           \<and> length (messages (conversation h')) = length (messages (conversation h)) + 2"
  using assms
  apply (simp add: busy_provider_def stream_ev_def the_list_def Let_def split_def
      conv_add_assistant_message_def conv_add_tool_results_def add_assistant_message_def
      add_tool_results_def execute_tools_def)
  apply (rule exI, rule conjI, rule exI, rule refl)
  apply simp
  done

lemma busy_last:
  assumes "provider h = busy_provider" and "\<not> length (messages (conversation h)) < 25"
  shows "\<exists>r. continue_conversation (Suc n) example_runtime h w out = Some r
           \<and> ending r = Returned
           \<and> provider_rounds (emitted r) = provider_rounds out + 1"
  using assms
  by (simp add: busy_provider_def stream_ev_def event_text_def Let_def split_def
      provider_rounds_def is_thinking_def assistant_message_event_def complete_event_def
      status_event_def sse_def)

lemma busy_rounds:
  "provider h = busy_provider \<Longrightarrow> length (messages (conversation h)) + 2 * k = 25
   \<Longrightarrow> \<exists>r. continue_conversation (Suc k) example_runtime h w out = Some r
          \<and> ending r = Returned
          \<and> provider_rounds (emitted r) = provider_rounds out + Suc k"
proof (induction k arbitrary: h w out)
  case 0
  then have "\<not> length (messages (conversation h)) < 25" by simp
  from busy_last[OF "0.prems"(1) this] show ?case by simp
next
  case (Suc k)
  then have lt: "length (messages (conversation h)) < 25" by simp
  from busy_step[OF Suc.prems(1) lt, of "Suc k" w out]
  obtain h' w' where step:
    "continue_conversation (Suc (Suc k)) example_runtime h w out
       = continue_conversation (Suc k) example_runtime h' w'
           (out @ [status_event (session_id (conversation h)) ''thinking''])"
    "provider h' = busy_provider"
    "length (messages (conversation h')) = length (messages (conversation h)) + 2"
    by blast
  have "length (messages (conversation h')) + 2 * k = 25"
    using step(3) Suc.prems(2) by simp
  from Suc.IH[OF step(2) this, of w' "out @ [status_event (session_id (conversation h)) ''thinking'']"]
  show ?case unfolding step(1) by simp
qed

text \<open>
  C3. The suspended run of scenario D, approved, with a provider that asks for a tool in
  each of the next eleven rounds: \<open>_continue_conversation\<close> runs twelve provider rounds
  and completes, while \<open>max_tool_iterations\<close> is 10. Eleven rounds of fuel do not
  reach the end of the run.
\<close>

theorem continuation_exceeds_max_tool_iterations:
  "max_tool_iterations busy_suspended = 10
   \<and> (\<exists>r. continue_after_permission 12 example_runtime busy_suspended ''uuu'' True False 3 = Some r
          \<and> ending r = Returned \<and> provider_rounds (emitted r) = 12)"
proof -
  have mx: "max_tool_iterations busy_suspended = 10"
    by (simp add: busy_suspended_def scenario_d_suspended_def scenario_d_handler_def)
  have "\<exists>h. (\<exists>w out. continue_after_permission 12 example_runtime busy_suspended ''uuu'' True False 3
            = continue_conversation 12 example_runtime h w out \<and> provider_rounds out = 0)
          \<and> provider h = busy_provider \<and> length (messages (conversation h)) = 3"
    apply (simp add: continue_after_permission_def respond_permission_def
      busy_suspended_def scenario_d_suspended_def scenario_d_handler_def scenario_d_assistant_def
      scenario_d_started_def scenario_d_permission_def fresh_service_def
      add_assistant_message_def add_user_message_def add_tool_results_def empty_conversation_def
      Let_def split_def get_pending_tool_uses_def get_last_assistant_message_def
      execute_tools_def conv_add_tool_results_def)
    apply (rule exI, rule conjI, rule exI, rule exI, rule conjI, rule refl)
     apply (simp add: provider_rounds_def is_thinking_def tool_result_event_def sse_def)
    apply simp
    done
  then obtain h w out where start:
    "continue_after_permission 12 example_runtime busy_suspended ''uuu'' True False 3
       = continue_conversation 12 example_runtime h w out"
    "provider h = busy_provider" "length (messages (conversation h)) = 3"
    "provider_rounds out = 0"
    by blast
  have "length (messages (conversation h)) + 2 * 11 = 25" using start(3) by simp
  from busy_rounds[OF start(2) this, of w out]
  have "\<exists>r. continue_conversation 12 example_runtime h w out = Some r
          \<and> ending r = Returned \<and> provider_rounds (emitted r) = 12"
    using start(4) by (simp add: eval_nat_numeral)
  then show ?thesis using mx start(1) by simp
qed

section \<open>Request ids and pending requests of an MCP connection\<close>

lemma upt_0_Suc: "[0..<Suc n] = 0 # map Suc [0..<n]"
  by (simp add: upt_conv_Cons map_Suc_upt del: upt_Suc)

lemma issue_ids_from:
  "issue_ids n c = (map (\<lambda>i. request_id c + int (Suc i)) [0..<n],
                    c\<lparr>request_id := request_id c + int n\<rparr>)"
proof (induction n arbitrary: c)
  case 0
  then show ?case by simp
next
  case (Suc n)
  show ?case
    using Suc.IH[of "c\<lparr>request_id := request_id c + 1\<rparr>"]
    by (simp add: next_request_id_def upt_0_Suc comp_def add.assoc del: upt_Suc)
qed

text \<open>The ids of a new connection are 1, 2, 3, ... in this order.\<close>

lemma issue_ids_new:
  "fst (issue_ids n (new_connection tr name cfg)) = map (\<lambda>i. int (Suc i)) [0..<n]"
  by (simp add: issue_ids_from new_connection_def del: upt_Suc)

text \<open>A response for a pending id removes that entry and settles its future.\<close>

lemma handle_message_result:
  assumes "map_of (pending_requests c) k = Some fut" and "map_of (futures c) fut = Some Waiting"
    and "map_of message ''id'' = Some (JInt k)" and "map_of message ''error'' = None"
  shows "handle_message c message =
           (None, c\<lparr>pending_requests := AList.delete k (pending_requests c),
                    futures := AList.update fut
                      (Resolved (case map_of message ''result'' of None \<Rightarrow> JNull | Some v \<Rightarrow> v))
                      (futures c)\<rparr>)"
  using assms by (simp add: handle_message_def key_of_def set_future_def)

lemma handle_message_error:
  assumes "map_of (pending_requests c) k = Some fut" and "map_of (futures c) fut = Some Waiting"
    and "map_of message ''id'' = Some (JInt k)" and "map_of message ''error'' = Some (JObj kv)"
  shows "handle_message c message =
           (None, c\<lparr>pending_requests := AList.delete k (pending_requests c),
                    futures := AList.update fut
                      (Rejected (case map_of kv ''message'' of None \<Rightarrow> JStr ''Unknown error'' | Some v \<Rightarrow> v))
                      (futures c)\<rparr>)"
  using assms by (simp add: handle_message_def key_of_def set_future_def)

text \<open>The end of the wait with the future still waiting: the timeout.\<close>

lemma wait_for_timeout:
  assumes "map_of (futures c) fut = Some Waiting"
  shows "wait_for c rid fut method =
           (Inl (TimeoutError (''Request '' @ method @ '' timed out'')),
            c\<lparr>pending_requests := AList.delete rid (pending_requests c),
              futures := AList.update fut Cancelled (futures c)\<rparr>)"
  using assms by (simp add: wait_for_def)

text \<open>A stdio request that nothing answers times out and leaves no pending entry.\<close>

lemma stdio_request_timeout:
  "stdio_send_request stdio_connected ''ping'' None [] =
     (Inl (TimeoutError ''Request ping timed out''),
      stdio_connected\<lparr>request_id := 1, pending_requests := [], futures := [(0, Cancelled)],
                       written := [(1, ''ping'', None)]\<rparr>)"
  by (simp add: stdio_send_request_def register_request_def next_request_id_def create_future_def
      wait_for_def stdio_connected_def new_connection_def)

text \<open>
  A new request takes the next id. While every pending id is at most the counter, no
  pending entry has that id, and this bound is kept.
\<close>

lemma register_request_fresh:
  assumes "\<forall>k \<in> fst ` set (pending_requests c). k \<le> request_id c"
    and "register_request c method params = Inr ((rid, fut), c1)"
  shows "rid = request_id c + 1 \<and> rid \<notin> fst ` set (pending_requests c)
         \<and> map_of (pending_requests c1) rid = Some fut
         \<and> request_id c1 = rid
         \<and> (\<forall>k \<in> fst ` set (pending_requests c1). k \<le> request_id c1)"
proof -
  have c1: "rid = request_id c + 1"
      "pending_requests c1 = AList.update rid fut (pending_requests c)"
      "request_id c1 = rid"
    using assms(2)
    by (auto simp: register_request_def next_request_id_def create_future_def Let_def
        split: if_splits)
  have fresh: "rid \<notin> fst ` set (pending_requests c)"
    using assms(1) c1(1) by force
  have bound: "\<forall>k \<in> fst ` set (pending_requests c1). k \<le> request_id c1"
  proof
    fix k assume "k \<in> fst ` set (pending_requests c1)"
    then have "k = rid \<or> k \<in> fst ` set (pending_requests c)"
      unfolding c1(2) dom_update by blast
    then show "k \<le> request_id c1"
      using assms(1) c1(1,3) by force
  qed
  show ?thesis
    using c1 fresh bound by (simp add: update_conv)
qed

text \<open>Handling a message adds no pending entry and leaves the counter alone.\<close>

lemma handle_message_only_removes:
  "fst ` set (pending_requests (snd (handle_message c message))) \<subseteq> fst ` set (pending_requests c)
   \<and> request_id (snd (handle_message c message)) = request_id c"
proof -
  have sub: "fst ` set (AList.delete k (pending_requests c)) \<subseteq> fst ` set (pending_requests c)" for k
    by (rule dom_delete_subset)
  have sf: "pending_requests (snd (set_future c0 fut v)) = pending_requests c0
            \<and> request_id (snd (set_future c0 fut v)) = request_id c0" for c0 fut v
    by (simp add: set_future_def split: option.splits Future.splits)
  show ?thesis
    using sub sf
    by (simp add: handle_message_def Let_def
        split: option.splits sum.splits json.splits)
qed

text \<open>A timeout leaves no pending entry for the request.\<close>

lemma wait_for_timeout_clears:
  "wait_for c rid fut method = (Inl (TimeoutError e), c1)
   \<Longrightarrow> map_of (pending_requests c1) rid = None
       \<and> e = ''Request '' @ method @ '' timed out''"
  by (auto simp: wait_for_def delete_conv split: option.splits Future.splits)

lemma str_int_500: "str_int 500 = ''500''"
  by code_simp

text \<open>
  C6. An SSE connection posts its first request and the server answers with HTTP status
  500: \<open>send_request\<close> raises the HTTP error, and request id 1 stays in the pending map
  with its future still waiting. No response and no timeout will remove it: the call
  has ended.
\<close>

theorem sse_http_error_leaves_pending_request:
  "sse_send_request sse_connected ''tools/list'' None server_error_response inbound =
     (Inl (HttpError ''HTTP error: 500''),
      sse_connected\<lparr>request_id := 1, pending_requests := [(1, 0)], futures := [(0, Waiting)],
                    written := [(1, ''tools/list'', None)]\<rparr>)"
  by (simp add: sse_send_request_def register_request_def next_request_id_def create_future_def
      sse_connected_def new_connection_def server_error_response_def str_int_500)

section \<open>The registry of the connection manager\<close>

text \<open>
  C4 as stated fails: a stdio configuration without a command makes \<open>connect()\<close> of the
  new connection fail, the manager returns the connection in state \<open>error\<close>, and the
  registry has no entry under the name.
\<close>

theorem failed_connection_not_retained:
  "manager_connect friendly_env [] ''srv'' no_command_config 0 =
     (Inr ((new_connection Stdio ''srv'' no_command_config)
             \<lparr>state := STATE_ERROR,
              error_message := Some ''Command is required for stdio connection''\<rparr>),
      [], 0)
   \<and> get_connection (fst (snd (manager_connect friendly_env [] ''srv'' no_command_config 0))) ''srv''
       = None"
  by (simp add: manager_connect_def disconnect_existing_def server_kind_def no_command_config_def
      connection_connect_def connect_precheck_def config_get_def truthy_def new_connection_def
      get_connection_def Let_def)

text \<open>The entries under other names stay as they are.\<close>

lemma manager_connect_other_names:
  assumes "manager_connect env connections srv_name cfg w = (result, conns1, w1)"
    and "n \<noteq> srv_name"
  shows "get_connection conns1 n = get_connection connections n"
  using assms
  by (auto simp: manager_connect_def disconnect_existing_def connection_disconnect_def
      get_connection_def update_conv Let_def
      split: option.splits prod.splits sum.splits if_splits)

text \<open>
  C4, amended. For a known server type: when a connection is registered under the name
  and its \<open>disconnect()\<close> raises, the exception leaves \<open>connect\<close>, no connection is
  created and the registry is as it was. Otherwise the new connection is returned to
  the caller, and it is stored in the registry under the name exactly when its
  \<open>connect()\<close> succeeded; after a failed attempt the registry holds under the name the
  earlier connection, now disconnected, or nothing. Entries under other names are kept.
\<close>

theorem manager_connect_registry:
  assumes kind: "server_kind cfg = Some tr"
    and run: "manager_connect env connections srv_name cfg w = (result, conns1, w1)"
  shows "(\<forall>n. n \<noteq> srv_name \<longrightarrow> get_connection conns1 n = get_connection connections n)
       \<and> (case get_connection connections srv_name of
            None \<Rightarrow>
              (case connection_connect env (new_connection tr srv_name cfg) w of
                 ((success, c), w2) \<Rightarrow>
                   result = Inr c \<and> w1 = w2
                   \<and> get_connection conns1 srv_name = (if success then Some c else None))
          | Some old \<Rightarrow>
              (case teardown env old w of
                 (Some e, w2) \<Rightarrow> result = Inl e \<and> conns1 = connections \<and> w1 = w2
               | (None, w2) \<Rightarrow>
                   (case connection_connect env (new_connection tr srv_name cfg) w2 of
                      ((success, c), w3) \<Rightarrow>
                        result = Inr c \<and> w1 = w3
                        \<and> get_connection conns1 srv_name =
                            (if success then Some c
                             else Some (old\<lparr>state := DISCONNECTED,
                                            has_transport :=
                                              (case transport old of
                                                 Stdio \<Rightarrow> False
                                               | SSE \<Rightarrow> has_transport old)\<rparr>)))))"
proof -
  have others: "\<forall>n. n \<noteq> srv_name \<longrightarrow> get_connection conns1 n = get_connection connections n"
    using manager_connect_other_names[OF run] by blast
  have name: "(case get_connection connections srv_name of
            None \<Rightarrow>
              (case connection_connect env (new_connection tr srv_name cfg) w of
                 ((success, c), w2) \<Rightarrow>
                   result = Inr c \<and> w1 = w2
                   \<and> get_connection conns1 srv_name = (if success then Some c else None))
          | Some old \<Rightarrow>
              (case teardown env old w of
                 (Some e, w2) \<Rightarrow> result = Inl e \<and> conns1 = connections \<and> w1 = w2
               | (None, w2) \<Rightarrow>
                   (case connection_connect env (new_connection tr srv_name cfg) w2 of
                      ((success, c), w3) \<Rightarrow>
                        result = Inr c \<and> w1 = w3
                        \<and> get_connection conns1 srv_name =
                            (if success then Some c
                             else Some (old\<lparr>state := DISCONNECTED,
                                            has_transport :=
                                              (case transport old of
                                                 Stdio \<Rightarrow> False
                                               | SSE \<Rightarrow> has_transport old)\<rparr>)))))"
  proof (cases "map_of connections srv_name")
    case None
    then show ?thesis
      using kind run
      by (auto simp: manager_connect_def disconnect_existing_def get_connection_def update_conv
          Let_def split: prod.splits if_splits)
  next
    case (Some old)
    obtain exc w2 where td: "teardown env old w = (exc, w2)" by (cases "teardown env old w")
    show ?thesis
    proof (cases exc)
      case None
      then show ?thesis
        using kind run Some td
        by (auto simp: manager_connect_def disconnect_existing_def connection_disconnect_def
            get_connection_def update_conv Let_def split: prod.splits if_splits)
    next
      case (Some e)
      then show ?thesis
        using kind run \<open>map_of connections srv_name = Some old\<close> td
        by (auto simp: manager_connect_def disconnect_existing_def connection_disconnect_def
            get_connection_def Let_def)
    qed
  qed
  show ?thesis using others name by (rule conjI)
qed

theorem manager_connect_registry_witness:
  "manager_connect friendly_env [(''srv'', registered_srv)] ''srv'' good_config 0
     = (Inr ((new_connection Stdio ''srv'' good_config)
               \<lparr>state := CONNECTED, has_transport := True, request_id := 5,
                connected_at := Some 0\<rparr>),
        [(''srv'', (new_connection Stdio ''srv'' good_config)
                     \<lparr>state := CONNECTED, has_transport := True, request_id := 5,
                      connected_at := Some 0\<rparr>)],
        1)
   \<and> manager_connect friendly_env [(''srv'', registered_srv)] ''srv'' no_command_config 0
     = (Inr ((new_connection Stdio ''srv'' no_command_config)
               \<lparr>state := STATE_ERROR,
                error_message := Some ''Command is required for stdio connection''\<rparr>),
        [(''srv'', registered_srv\<lparr>state := DISCONNECTED, has_transport := False\<rparr>)],
        0)
   \<and> manager_connect exited_env [(''srv'', registered_srv)] ''srv'' good_config 0
     = (Inl [], [(''srv'', registered_srv)], 0)"
proof -
  have k1: "server_kind good_config = Some Stdio"
    by (simp add: server_kind_def good_config_def)
  have k2: "server_kind no_command_config = Some Stdio"
    by (simp add: server_kind_def no_command_config_def)
  have reg: "get_connection [(''srv'', registered_srv)] ''srv'' = Some registered_srv"
    by (simp add: get_connection_def)
  have td: "teardown friendly_env registered_srv 0 = (None, 0)"
    by (simp add: friendly_env_def)
  have td2: "teardown exited_env registered_srv 0 = (Some [], 0)"
    by (simp add: exited_env_def)
  have c1: "connection_connect friendly_env (new_connection Stdio ''srv'' good_config) 0
              = ((True, (new_connection Stdio ''srv'' good_config)
                          \<lparr>state := CONNECTED, has_transport := True, request_id := 5,
                           connected_at := Some 0\<rparr>), 1)"
    by (simp add: connection_connect_def connect_precheck_def config_get_def truthy_def
        char_in_def new_connection_def good_config_def friendly_env_def Let_def)
  have c2: "connection_connect friendly_env (new_connection Stdio ''srv'' no_command_config) 0
              = ((False, (new_connection Stdio ''srv'' no_command_config)
                           \<lparr>state := STATE_ERROR,
                            error_message := Some ''Command is required for stdio connection''\<rparr>), 0)"
    by (simp add: connection_connect_def connect_precheck_def config_get_def truthy_def
        new_connection_def no_command_config_def Let_def)
  have tr: "transport registered_srv = Stdio"
    by (simp add: registered_srv_def new_connection_def)
  obtain r1 s1 v1 where m1:
    "manager_connect friendly_env [(''srv'', registered_srv)] ''srv'' good_config 0 = (r1, s1, v1)"
    by (metis prod_cases3)
  obtain r2 s2 v2 where m2:
    "manager_connect friendly_env [(''srv'', registered_srv)] ''srv'' no_command_config 0 = (r2, s2, v2)"
    by (metis prod_cases3)
  obtain r3 s3 v3 where m3:
    "manager_connect exited_env [(''srv'', registered_srv)] ''srv'' good_config 0 = (r3, s3, v3)"
    by (metis prod_cases3)
  have other1: "s1 = [(''srv'', the (get_connection s1 ''srv''))]"
    using m1
    by (auto simp: manager_connect_def disconnect_existing_def connection_disconnect_def
        get_connection_def Let_def td k1 c1)
  have other2: "s2 = [(''srv'', the (get_connection s2 ''srv''))]"
    using m2
    by (auto simp: manager_connect_def disconnect_existing_def connection_disconnect_def
        get_connection_def Let_def td k2 c2)
  have a: "r1 = Inr ((new_connection Stdio ''srv'' good_config)
                      \<lparr>state := CONNECTED, has_transport := True, request_id := 5,
                       connected_at := Some 0\<rparr>)
           \<and> v1 = 1
           \<and> get_connection s1 ''srv''
               = Some ((new_connection Stdio ''srv'' good_config)
                         \<lparr>state := CONNECTED, has_transport := True, request_id := 5,
                          connected_at := Some 0\<rparr>)"
    using manager_connect_registry[OF k1 m1] by (simp add: reg td c1)
  have b: "r2 = Inr ((new_connection Stdio ''srv'' no_command_config)
                      \<lparr>state := STATE_ERROR,
                       error_message := Some ''Command is required for stdio connection''\<rparr>)
           \<and> v2 = 0
           \<and> get_connection s2 ''srv''
               = Some (registered_srv\<lparr>state := DISCONNECTED, has_transport := False\<rparr>)"
    using manager_connect_registry[OF k2 m2] by (simp add: reg td c2 tr)
  have c: "r3 = Inl [] \<and> s3 = [(''srv'', registered_srv)] \<and> v3 = 0"
    using manager_connect_registry[OF k1 m3] by (simp add: reg td2)
  show ?thesis
    unfolding m1 m2 m3 using a b c other1 other2 by simp
qed

section \<open>Tool arguments rebuilt from streamed fragments\<close>

lemma api_events_append:
  "api_events loads st (xs @ ys) =
     (case api_events loads st xs of
        (s1, o1, Some e) \<Rightarrow> (s1, o1, Some e)
      | (s1, o1, None) \<Rightarrow>
          (case api_events loads s1 ys of (s2, o2, exc) \<Rightarrow> (s2, o1 @ o2, exc)))"
proof (induction xs arbitrary: st)
  case Nil
  then show ?case by (simp split: prod.splits)
next
  case (Cons x xs)
  show ?case
  proof (cases "api_event loads st x")
    case (Inl e)
    then show ?thesis by simp
  next
    case (Inr r)
    obtain st1 out1 where r: "r = (st1, out1)" by (cases r)
    show ?thesis
      using Inr r Cons.IH[of st1]
      by (auto simp: Let_def split: prod.splits option.splits)
  qed
qed

text \<open>The events inside a block: they add their fragments and keep the id and name.\<close>

lemma api_event_inside:
  assumes "inside_block ev" and "current_tool_id st = cid"
  shows "api_event loads st ev
     = Inr (st\<lparr>current_tool_input := current_tool_input st @ fragment ev\<rparr>,
            (\<lambda>ev. case ev of
                           MessageStart \<Rightarrow> [stream_ev MESSAGE_START]
                         | ContentBlockDelta (Some (TextDelta t)) \<Rightarrow>
                             [(stream_ev TEXT_DELTA)\<lparr>se_text := Some t\<rparr>]
                         | ContentBlockDelta (Some (InputJsonDelta p)) \<Rightarrow>
                             [(stream_ev TOOL_USE_DELTA)
                                \<lparr>se_tool_use_id := cid, se_tool_input_delta := Some p\<rparr>]
                         | MessageDelta output_tokens \<Rightarrow>
                             [(stream_ev MESSAGE_DELTA)
                                \<lparr>se_usage := map_option (\<lambda>n. [(''output_tokens'', n)])
                                               output_tokens\<rparr>]
                         | MessageStop \<Rightarrow> [stream_ev MESSAGE_END]
                         | _ \<Rightarrow> []) ev)"
proof (cases ev)
  case (ContentBlockStart blk)
  show ?thesis
  proof (cases blk)
    case None
    then show ?thesis using ContentBlockStart by (simp add: api_event_def fragment_def)
  next
    case (Some b)
    then show ?thesis
      using ContentBlockStart assms(1)
      by (cases b) (simp_all add: api_event_def fragment_def inside_block_def)
  qed
next
  case (ContentBlockDelta dl)
  show ?thesis
  proof (cases dl)
    case None
    then show ?thesis using ContentBlockDelta by (simp add: api_event_def fragment_def)
  next
    case (Some d)
    then show ?thesis
      using ContentBlockDelta assms(2) by (cases d) (simp_all add: api_event_def fragment_def)
  qed
next
  case ContentBlockStop
  then show ?thesis using assms(1) by (simp add: inside_block_def)
qed (simp_all add: api_event_def fragment_def)

lemma api_events_inside:
  assumes "\<forall>ev \<in> set mid. inside_block ev" and "current_tool_id st = cid"
  shows "api_events loads st mid
     = (st\<lparr>current_tool_input := current_tool_input st @ concat (map fragment mid)\<rparr>,
        concat (map (\<lambda>ev. case ev of
                           MessageStart \<Rightarrow> [stream_ev MESSAGE_START]
                         | ContentBlockDelta (Some (TextDelta t)) \<Rightarrow>
                             [(stream_ev TEXT_DELTA)\<lparr>se_text := Some t\<rparr>]
                         | ContentBlockDelta (Some (InputJsonDelta p)) \<Rightarrow>
                             [(stream_ev TOOL_USE_DELTA)
                                \<lparr>se_tool_use_id := cid, se_tool_input_delta := Some p\<rparr>]
                         | MessageDelta output_tokens \<Rightarrow>
                             [(stream_ev MESSAGE_DELTA)
                                \<lparr>se_usage := map_option (\<lambda>n. [(''output_tokens'', n)])
                                               output_tokens\<rparr>]
                         | MessageStop \<Rightarrow> [stream_ev MESSAGE_END]
                         | _ \<Rightarrow> []) mid),
        None)"
  using assms
proof (induction mid arbitrary: st)
  case Nil
  then show ?case by simp
next
  case (Cons ev mid)
  have step: "api_event loads st ev
     = Inr (st\<lparr>current_tool_input := current_tool_input st @ fragment ev\<rparr>,
            (\<lambda>ev. case ev of
                           MessageStart \<Rightarrow> [stream_ev MESSAGE_START]
                         | ContentBlockDelta (Some (TextDelta t)) \<Rightarrow>
                             [(stream_ev TEXT_DELTA)\<lparr>se_text := Some t\<rparr>]
                         | ContentBlockDelta (Some (InputJsonDelta p)) \<Rightarrow>
                             [(stream_ev TOOL_USE_DELTA)
                                \<lparr>se_tool_use_id := cid, se_tool_input_delta := Some p\<rparr>]
                         | MessageDelta output_tokens \<Rightarrow>
                             [(stream_ev MESSAGE_DELTA)
                                \<lparr>se_usage := map_option (\<lambda>n. [(''output_tokens'', n)])
                                               output_tokens\<rparr>]
                         | MessageStop \<Rightarrow> [stream_ev MESSAGE_END]
                         | _ \<Rightarrow> []) ev)"
    using Cons.prems by (intro api_event_inside) simp_all
  have rest: "api_events loads (st\<lparr>current_tool_input := current_tool_input st @ fragment ev\<rparr>) mid
     = ((st\<lparr>current_tool_input := current_tool_input st @ fragment ev\<rparr>)
          \<lparr>current_tool_input :=
             current_tool_input (st\<lparr>current_tool_input := current_tool_input st @ fragment ev\<rparr>)
             @ concat (map fragment mid)\<rparr>,
        concat (map (\<lambda>ev. case ev of
                           MessageStart \<Rightarrow> [stream_ev MESSAGE_START]
                         | ContentBlockDelta (Some (TextDelta t)) \<Rightarrow>
                             [(stream_ev TEXT_DELTA)\<lparr>se_text := Some t\<rparr>]
                         | ContentBlockDelta (Some (InputJsonDelta p)) \<Rightarrow>
                             [(stream_ev TOOL_USE_DELTA)
                                \<lparr>se_tool_use_id := cid, se_tool_input_delta := Some p\<rparr>]
                         | MessageDelta output_tokens \<Rightarrow>
                             [(stream_ev MESSAGE_DELTA)
                                \<lparr>se_usage := map_option (\<lambda>n. [(''output_tokens'', n)])
                                               output_tokens\<rparr>]
                         | MessageStop \<Rightarrow> [stream_ev MESSAGE_END]
                         | _ \<Rightarrow> []) mid),
        None)"
    using Cons.prems by (intro Cons.IH) simp_all
  show ?case
    by (simp only: api_events.simps step rest sum.case prod.case Let_def list.map concat.simps)
       simp
qed

lemma stream_from_pair:
  "stream_from loads st (evs, exc) =
     (case api_events loads st evs of
        (st1, out, x) \<Rightarrow>
          out @ (case x of
                   Some e \<Rightarrow> [(stream_ev ERROR)\<lparr>se_error := Some e\<rparr>]
                 | None \<Rightarrow>
                     (case exc of
                        None \<Rightarrow> []
                      | Some e \<Rightarrow> [(stream_ev ERROR)\<lparr>se_error := Some e\<rparr>])))"
  by (simp add: stream_from_def split: prod.splits option.splits)

text \<open>
  C5 as stated fails: the fragments of a block concatenate to a JSON object nested so
  deep that \<open>json.loads\<close> raises \<open>RecursionError\<close>. That is no \<open>JSONDecodeError\<close>, so
  it leaves the loop: the block gets no \<open>TOOL_USE_END\<close> event, the rest of the stream
  is not read, and the stream ends with an \<open>ERROR\<close> event.
\<close>

theorem deep_arguments_end_the_stream:
  "stream_complete example_loads
     ([ContentBlockStart (Some (ToolUseBlock ''toolu_1'' ''read_file'')),
       ContentBlockDelta (Some (InputJsonDelta deep_text)),
       ContentBlockStop, MessageStop], None)
   = [(stream_ev TOOL_USE_START)\<lparr>se_tool_use_id := Some ''toolu_1'',
                                   se_tool_name := Some ''read_file''\<rparr>,
      (stream_ev TOOL_USE_DELTA)\<lparr>se_tool_use_id := Some ''toolu_1'',
                                   se_tool_input_delta := Some deep_text\<rparr>,
      (stream_ev ERROR)
        \<lparr>se_error :=
           Some ''maximum recursion depth exceeded while decoding a JSON object from a unicode string''\<rparr>]"
proof -
  have ne: "deep_text \<noteq> []"
    unfolding deep_text_def by (simp only: append_is_Nil_conv list.distinct simp_thms)
  show ?thesis
    using ne
    by (simp add: stream_complete_def stream_from_pair api_event_def truthy_str_def example_loads_def
        Let_def)
qed

text \<open>
  C5, amended. A tool-use block is streamed after events that raise nothing: its start,
  the events inside it, its end-of-block signal, then the rest of the stream. When its
  id and name are not empty and the concatenated fragments are not empty, the block
  ends with a \<open>TOOL_USE_END\<close> event whose arguments are the value that \<open>json.loads\<close>
  returns, or the empty object when \<open>json.loads\<close> raises \<open>JSONDecodeError\<close>; with no
  fragments the arguments are the empty object; the stream then goes on as from its
  start. When \<open>json.loads\<close> raises another exception, the stream ends there with an
  \<open>ERROR\<close> event and the block has no \<open>TOOL_USE_END\<close> event. A block with an empty id
  or name has no \<open>TOOL_USE_END\<close> event either, and its tracking variables stay.
\<close>

theorem tool_arguments_round_trip:
  assumes pre: "api_events loads
                  \<lparr>current_tool_id = None, current_tool_name = None, current_tool_input = []\<rparr> pre
                = (st0, out0, None)"
    and inside: "\<forall>ev \<in> set mid. inside_block ev"
  shows "stream_complete loads
           (pre @ ContentBlockStart (Some (ToolUseBlock tid tname))
                # mid @ ContentBlockStop # rest, exc)
         = out0
           @ [(stream_ev TOOL_USE_START)\<lparr>se_tool_use_id := Some tid, se_tool_name := Some tname\<rparr>]
           @ concat (map (\<lambda>ev. case ev of
                           MessageStart \<Rightarrow> [stream_ev MESSAGE_START]
                         | ContentBlockDelta (Some (TextDelta t)) \<Rightarrow>
                             [(stream_ev TEXT_DELTA)\<lparr>se_text := Some t\<rparr>]
                         | ContentBlockDelta (Some (InputJsonDelta p)) \<Rightarrow>
                             [(stream_ev TOOL_USE_DELTA)
                                \<lparr>se_tool_use_id := Some tid, se_tool_input_delta := Some p\<rparr>]
                         | MessageDelta output_tokens \<Rightarrow>
                             [(stream_ev MESSAGE_DELTA)
                                \<lparr>se_usage := map_option (\<lambda>n. [(''output_tokens'', n)])
                                               output_tokens\<rparr>]
                         | MessageStop \<Rightarrow> [stream_ev MESSAGE_END]
                         | _ \<Rightarrow> []) mid)
           @ (if tid = [] \<or> tname = []
              then stream_from loads
                     \<lparr>current_tool_id = Some tid, current_tool_name = Some tname,
                      current_tool_input = concat (map fragment mid)\<rparr> (rest, exc)
              else if concat (map fragment mid) = []
              then (stream_ev TOOL_USE_END)
                     \<lparr>se_tool_use := Some \<lparr>tu_id = tid, tu_name = tname, tu_arguments = JObj []\<rparr>\<rparr>
                   # stream_complete loads (rest, exc)
              else (case loads (concat (map fragment mid)) of
                      Parsed v \<Rightarrow>
                        (stream_ev TOOL_USE_END)
                          \<lparr>se_tool_use := Some \<lparr>tu_id = tid, tu_name = tname, tu_arguments = v\<rparr>\<rparr>
                        # stream_complete loads (rest, exc)
                    | JSONDecodeError \<Rightarrow>
                        (stream_ev TOOL_USE_END)
                          \<lparr>se_tool_use :=
                             Some \<lparr>tu_id = tid, tu_name = tname, tu_arguments = JObj []\<rparr>\<rparr>
                        # stream_complete loads (rest, exc)
                    | OtherError e \<Rightarrow> [(stream_ev ERROR)\<lparr>se_error := Some e\<rparr>]))"
proof -
  let ?idle = "\<lparr>current_tool_id = None, current_tool_name = None, current_tool_input = []\<rparr>"
  let ?s0 = "\<lparr>current_tool_id = Some tid, current_tool_name = Some tname, current_tool_input = []\<rparr>"
  let ?frag = "concat (map fragment mid)"
  let ?s1 = "\<lparr>current_tool_id = Some tid, current_tool_name = Some tname,
              current_tool_input = ?frag\<rparr>"
  let ?start = "(stream_ev TOOL_USE_START)\<lparr>se_tool_use_id := Some tid, se_tool_name := Some tname\<rparr>"
  let ?mid = "concat (map (\<lambda>ev. case ev of
                           MessageStart \<Rightarrow> [stream_ev MESSAGE_START]
                         | ContentBlockDelta (Some (TextDelta t)) \<Rightarrow>
                             [(stream_ev TEXT_DELTA)\<lparr>se_text := Some t\<rparr>]
                         | ContentBlockDelta (Some (InputJsonDelta p)) \<Rightarrow>
                             [(stream_ev TOOL_USE_DELTA)
                                \<lparr>se_tool_use_id := Some tid, se_tool_input_delta := Some p\<rparr>]
                         | MessageDelta output_tokens \<Rightarrow>
                             [(stream_ev MESSAGE_DELTA)
                                \<lparr>se_usage := map_option (\<lambda>n. [(''output_tokens'', n)])
                                               output_tokens\<rparr>]
                         | MessageStop \<Rightarrow> [stream_ev MESSAGE_END]
                         | _ \<Rightarrow> []) mid)"
  have start: "api_event loads st0 (ContentBlockStart (Some (ToolUseBlock tid tname)))
                 = Inr (?s0, [?start])"
    by (simp add: api_event_def)
  have mid: "api_events loads ?s0 mid = (?s1, ?mid, None)"
    using api_events_inside[OF inside, of ?s0 "Some tid" loads] by simp
  have block: "api_events loads ?idle
                 (pre @ ContentBlockStart (Some (ToolUseBlock tid tname))
                      # mid @ ContentBlockStop # rest)
               = (case api_events loads ?s1 (ContentBlockStop # rest) of
                    (s2, o2, x) \<Rightarrow> (s2, out0 @ [?start] @ ?mid @ o2, x))"
    by (simp add: api_events_append[of loads ?idle pre] pre start
        api_events_append[of loads ?s0 mid] mid split: prod.splits)
  show ?thesis
  proof (cases "tid = [] \<or> tname = []")
    case True
    then have stop: "api_event loads ?s1 ContentBlockStop = Inr (?s1, [])"
      by (auto simp: api_event_def truthy_str_def)
    show ?thesis
      using True
      by (simp add: stream_complete_def stream_from_pair block stop split: prod.splits)
  next
    case False
    note ids = False
    show ?thesis
    proof (cases "?frag = []")
      case True
      have stop: "api_event loads ?s1 ContentBlockStop
                    = Inr (?idle, [(stream_ev TOOL_USE_END)
                                     \<lparr>se_tool_use := Some \<lparr>tu_id = tid, tu_name = tname,
                                                            tu_arguments = JObj []\<rparr>\<rparr>])"
        using ids by (subst True)+ (simp add: api_event_def truthy_str_def)
      have "stream_complete loads
              (pre @ ContentBlockStart (Some (ToolUseBlock tid tname))
                   # mid @ ContentBlockStop # rest, exc)
            = out0 @ [?start] @ ?mid
              @ (stream_ev TOOL_USE_END)
                  \<lparr>se_tool_use := Some \<lparr>tu_id = tid, tu_name = tname, tu_arguments = JObj []\<rparr>\<rparr>
                # stream_complete loads (rest, exc)"
        by (simp add: stream_complete_def stream_from_pair block stop split: prod.splits
            del: concat_eq_Nil_conv)
      then show ?thesis
        using ids True by (simp del: concat_eq_Nil_conv)
    next
      case False
      show ?thesis
      proof (cases "loads ?frag")
        case (Parsed v)
        have stop: "api_event loads ?s1 ContentBlockStop
                    = Inr (?idle, [(stream_ev TOOL_USE_END)
                                     \<lparr>se_tool_use := Some \<lparr>tu_id = tid, tu_name = tname,
                                                            tu_arguments = v\<rparr>\<rparr>])"
          using ids False Parsed
          by (simp add: api_event_def truthy_str_def del: concat_eq_Nil_conv)
        have "stream_complete loads
              (pre @ ContentBlockStart (Some (ToolUseBlock tid tname))
                   # mid @ ContentBlockStop # rest, exc)
            = out0 @ [?start] @ ?mid
              @ (stream_ev TOOL_USE_END)
                  \<lparr>se_tool_use := Some \<lparr>tu_id = tid, tu_name = tname, tu_arguments = v\<rparr>\<rparr>
                # stream_complete loads (rest, exc)"
          by (simp add: stream_complete_def stream_from_pair block stop split: prod.splits
              del: concat_eq_Nil_conv)
        then show ?thesis
          using ids False Parsed by (simp del: concat_eq_Nil_conv)
      next
        case JSONDecodeError
        have stop: "api_event loads ?s1 ContentBlockStop
                    = Inr (?idle, [(stream_ev TOOL_USE_END)
                                     \<lparr>se_tool_use := Some \<lparr>tu_id = tid, tu_name = tname,
                                                            tu_arguments = JObj []\<rparr>\<rparr>])"
          using ids False JSONDecodeError
          by (simp add: api_event_def truthy_str_def del: concat_eq_Nil_conv)
        have "stream_complete loads
              (pre @ ContentBlockStart (Some (ToolUseBlock tid tname))
                   # mid @ ContentBlockStop # rest, exc)
            = out0 @ [?start] @ ?mid
              @ (stream_ev TOOL_USE_END)
                  \<lparr>se_tool_use := Some \<lparr>tu_id = tid, tu_name = tname, tu_arguments = JObj []\<rparr>\<rparr>
                # stream_complete loads (rest, exc)"
          by (simp add: stream_complete_def stream_from_pair block stop split: prod.splits
              del: concat_eq_Nil_conv)
        then show ?thesis
          using ids False JSONDecodeError by (simp del: concat_eq_Nil_conv)
      next
        case (OtherError e)
        have stop: "api_event loads ?s1 ContentBlockStop = Inl e"
          using ids False OtherError
          by (simp add: api_event_def truthy_str_def del: concat_eq_Nil_conv)
        have "stream_complete loads
              (pre @ ContentBlockStart (Some (ToolUseBlock tid tname))
                   # mid @ ContentBlockStop # rest, exc)
            = out0 @ [?start] @ ?mid @ [(stream_ev ERROR)\<lparr>se_error := Some e\<rparr>]"
          by (simp add: stream_complete_def stream_from_pair block stop split: prod.splits
              del: concat_eq_Nil_conv)
        then show ?thesis
          using ids False OtherError by (simp del: concat_eq_Nil_conv)
      qed
    qed
  qed
qed

lemma deep_text_length: "length deep_text = 600001"
  by (simp add: deep_text_def length_concat sum_list_replicate)

theorem tool_arguments_round_trip_witness:
  "stream_complete example_loads
     ([MessageStart, ContentBlockStart (Some (ToolUseBlock ''toolu_1'' ''read_file''))]
        @ example_deltas @ [ContentBlockStop, MessageStop], None)
   = [stream_ev MESSAGE_START,
      (stream_ev TOOL_USE_START)\<lparr>se_tool_use_id := Some ''toolu_1'',
                                   se_tool_name := Some ''read_file''\<rparr>,
      (stream_ev TOOL_USE_DELTA)\<lparr>se_tool_use_id := Some ''toolu_1'',
                                   se_tool_input_delta := Some ''{''\<rparr>,
      (stream_ev TOOL_USE_DELTA)\<lparr>se_tool_use_id := Some ''toolu_1'',
                                   se_tool_input_delta := Some ([CHR 0x22] @ ''n'' @ [CHR 0x22])\<rparr>,
      (stream_ev TOOL_USE_DELTA)\<lparr>se_tool_use_id := Some ''toolu_1'',
                                   se_tool_input_delta := Some '':1}''\<rparr>,
      (stream_ev TOOL_USE_END)
        \<lparr>se_tool_use := Some \<lparr>tu_id = ''toolu_1'', tu_name = ''read_file'',
                               tu_arguments = JObj [(''n'', JInt 1)]\<rparr>\<rparr>,
      stream_ev MESSAGE_END]
   \<and> stream_complete example_loads
       ([MessageStart, ContentBlockStart (Some (ToolUseBlock ''toolu_1'' ''read_file''))]
          @ [ContentBlockDelta (Some (InputJsonDelta ''{n''))] @ [ContentBlockStop], Some ''closed'')
     = [stream_ev MESSAGE_START,
        (stream_ev TOOL_USE_START)\<lparr>se_tool_use_id := Some ''toolu_1'',
                                     se_tool_name := Some ''read_file''\<rparr>,
        (stream_ev TOOL_USE_DELTA)\<lparr>se_tool_use_id := Some ''toolu_1'',
                                     se_tool_input_delta := Some ''{n''\<rparr>,
        (stream_ev TOOL_USE_END)
          \<lparr>se_tool_use := Some \<lparr>tu_id = ''toolu_1'', tu_name = ''read_file'',
                                 tu_arguments = JObj []\<rparr>\<rparr>,
        (stream_ev ERROR)\<lparr>se_error := Some ''closed''\<rparr>]"
proof -
  let ?idle = "\<lparr>current_tool_id = None, current_tool_name = None, current_tool_input = []\<rparr>"
  have pre: "api_events example_loads ?idle [MessageStart] = (?idle, [stream_ev MESSAGE_START], None)"
    by (simp add: api_event_def)
  have ne: "example_text \<noteq> deep_text"
  proof
    assume "example_text = deep_text"
    then have "length example_text = length deep_text" by simp
    then show False by (simp add: deep_text_length example_text_def)
  qed
  have ne2: "''{n'' \<noteq> deep_text"
  proof
    assume "''{n'' = deep_text"
    then have "length ''{n'' = length deep_text" by simp
    then show False by (simp add: deep_text_length)
  qed
  have ok: "example_loads (concat (map fragment example_deltas)) = Parsed (JObj [(''n'', JInt 1)])"
    using ne by (simp add: example_loads_def example_text_def example_deltas_def fragment_def)
  have bad: "example_loads (concat (map fragment [ContentBlockDelta (Some (InputJsonDelta ''{n''))])) = JSONDecodeError"
    using ne2 by (simp add: example_loads_def example_text_def fragment_def)
  have fr: "concat (map fragment example_deltas) \<noteq> []"
    by (simp add: example_deltas_def fragment_def)
  have fr2: "concat (map fragment [ContentBlockDelta (Some (InputJsonDelta ''{n''))]) \<noteq> []"
    by (simp add: fragment_def)
  have in1: "\<forall>ev \<in> set example_deltas. inside_block ev"
    by (simp add: example_deltas_def inside_block_def)
  have in2: "\<forall>ev \<in> set [ContentBlockDelta (Some (InputJsonDelta ''{n''))]. inside_block ev"
    by (simp add: inside_block_def)
  have stop: "stream_complete example_loads ([MessageStop], None) = [stream_ev MESSAGE_END]"
    by (simp add: stream_complete_def stream_from_pair api_event_def)
  have nil: "stream_complete example_loads ([], Some ''closed'')
               = [(stream_ev ERROR)\<lparr>se_error := Some ''closed''\<rparr>]"
    by (simp add: stream_complete_def stream_from_pair)
  have a: "stream_complete example_loads
     ([MessageStart, ContentBlockStart (Some (ToolUseBlock ''toolu_1'' ''read_file''))]
        @ example_deltas @ [ContentBlockStop, MessageStop], None)
   = [stream_ev MESSAGE_START,
      (stream_ev TOOL_USE_START)\<lparr>se_tool_use_id := Some ''toolu_1'',
                                   se_tool_name := Some ''read_file''\<rparr>,
      (stream_ev TOOL_USE_DELTA)\<lparr>se_tool_use_id := Some ''toolu_1'',
                                   se_tool_input_delta := Some ''{''\<rparr>,
      (stream_ev TOOL_USE_DELTA)\<lparr>se_tool_use_id := Some ''toolu_1'',
                                   se_tool_input_delta := Some ([CHR 0x22] @ ''n'' @ [CHR 0x22])\<rparr>,
      (stream_ev TOOL_USE_DELTA)\<lparr>se_tool_use_id := Some ''toolu_1'',
                                   se_tool_input_delta := Some '':1}''\<rparr>,
      (stream_ev TOOL_USE_END)
        \<lparr>se_tool_use := Some \<lparr>tu_id = ''toolu_1'', tu_name = ''read_file'',
                               tu_arguments = JObj [(''n'', JInt 1)]\<rparr>\<rparr>,
      stream_ev MESSAGE_END]"
    using tool_arguments_round_trip
            [OF pre in1, of "''toolu_1''" "''read_file''" "[MessageStop]" None]
    by (simp only: fr ok stop LoadsResult.case if_False list.distinct simp_thms append_Cons
        append_Nil)
       (simp add: example_deltas_def)
  have b: "stream_complete example_loads
       ([MessageStart, ContentBlockStart (Some (ToolUseBlock ''toolu_1'' ''read_file''))]
          @ [ContentBlockDelta (Some (InputJsonDelta ''{n''))] @ [ContentBlockStop], Some ''closed'')
     = [stream_ev MESSAGE_START,
        (stream_ev TOOL_USE_START)\<lparr>se_tool_use_id := Some ''toolu_1'',
                                     se_tool_name := Some ''read_file''\<rparr>,
        (stream_ev TOOL_USE_DELTA)\<lparr>se_tool_use_id := Some ''toolu_1'',
                                     se_tool_input_delta := Some ''{n''\<rparr>,
        (stream_ev TOOL_USE_END)
          \<lparr>se_tool_use := Some \<lparr>tu_id = ''toolu_1'', tu_name = ''read_file'',
                                 tu_arguments = JObj []\<rparr>\<rparr>,
        (stream_ev ERROR)\<lparr>se_error := Some ''closed''\<rparr>]"
    using tool_arguments_round_trip
            [OF pre in2, of "''toolu_1''" "''read_file''" "[]" "Some ''closed''"]
    by (simp only: fr2 bad nil LoadsResult.case if_False list.distinct simp_thms append_Cons
        append_Nil)
       simp
  show ?thesis using a b by (rule conjI)
qed

section \<open>Editing a file with an ambiguous pattern\<close>

lemma py_in_empty: "py_in [] s"
  by (cases s) simp_all

lemma count_from_in: "0 < count_from sub s \<Longrightarrow> py_in sub s"
proof (induction sub s rule: count_from.induct)
  case (1 sub s)
  show ?case
  proof (cases "sub = [] \<or> s = []")
    case True
    then show ?thesis using "1.prems" by (simp add: count_from.simps)
  next
    case False
    then obtain c cs where s: "s = c # cs" by (cases s) auto
    show ?thesis
    proof (cases "prefix sub s")
      case True
      then show ?thesis using s by simp
    next
      case np: False
      have "0 < count_from sub (tl s)"
        using "1.prems" False np by (simp add: count_from.simps[of sub s])
      from "1.IH"(2)[OF False np this] show ?thesis using s by simp
    qed
  qed
qed

lemma py_count_in: "0 < py_count s sub \<Longrightarrow> py_in sub s"
  by (cases "sub = []") (simp_all add: py_count_def py_in_empty count_from_in)

lemma replace_from_none: "count_from old s = 0 \<Longrightarrow> replace_from old new s = s"
proof (induction old s rule: count_from.induct)
  case (1 old s)
  show ?case
  proof (cases "old = [] \<or> s = []")
    case True
    then show ?thesis by (simp add: replace_from.simps)
  next
    case False
    have np: "\<not> prefix old s"
      using "1.prems" False by (auto simp: count_from.simps[of old s] split: if_splits)
    have "count_from old (tl s) = 0"
      using "1.prems" False np by (simp add: count_from.simps[of old s])
    from "1.IH"(2)[OF False np this] show ?thesis
      using False np by (simp add: replace_from.simps[of old new s])
  qed
qed

text \<open>One more occurrence: the text splits at the first one that the scan takes.\<close>

lemma replace_from_next:
  "old \<noteq> [] \<Longrightarrow> count_from old s = Suc n
   \<Longrightarrow> \<exists>a r. s = a @ old @ r \<and> count_from old r = n
             \<and> replace_from old new s = a @ new @ replace_from old new r"
proof (induction old s arbitrary: n rule: count_from.induct)
  case (1 old s)
  have ne: "s \<noteq> []" using "1.prems" by (auto simp: count_from.simps[of old s])
  then have guard: "\<not> (old = [] \<or> s = [])" using "1.prems"(1) by simp
  show ?case
  proof (cases "prefix old s")
    case True
    then obtain r where r: "s = old @ r" by (auto simp: prefix_def)
    have dr: "drop (length old) s = r" using r by simp
    have "count_from old s = Suc (count_from old (drop (length old) s))"
      using guard True by (subst count_from.simps) simp
    then have cnt: "count_from old r = n"
      using "1.prems"(2) dr by simp
    have "replace_from old new s = new @ replace_from old new (drop (length old) s)"
      using guard True by (subst replace_from.simps) simp
    then have rep: "replace_from old new s = [] @ new @ replace_from old new r"
      using dr by simp
    have "s = [] @ old @ r" using r by simp
    then show ?thesis using cnt rep by blast
  next
    case False
    have "count_from old (tl s) = Suc n"
      using "1.prems" guard False by (simp add: count_from.simps[of old s])
    from "1.IH"(2)[OF guard False "1.prems"(1) this]
    obtain a r where ar: "tl s = a @ old @ r" "count_from old r = n"
        "replace_from old new (tl s) = a @ new @ replace_from old new r"
      by blast
    have "s = (hd s # a) @ old @ r" using ar(1) ne by (cases s) auto
    moreover have "replace_from old new s = (hd s # a) @ new @ replace_from old new r"
      using guard False ar(3) by (simp add: replace_from.simps[of old new s])
    ultimately show ?thesis using ar(2) by blast
  qed
qed

lemma py_replace_three:
  assumes "py_count s old = 3"
  shows "\<exists>a b c d. s = a @ old @ b @ old @ c @ old @ d
           \<and> py_replace s old new = a @ new @ b @ new @ c @ new @ d"
proof (cases "old = []")
  case True
  then have "length s = 2" using assms by (simp add: py_count_def)
  then obtain x y where s: "s = [x, y]"
    by (metis One_nat_def Suc_1 length_0_conv length_Suc_conv)
  have "s = [] @ old @ [x] @ old @ [y] @ old @ []" using s True by simp
  moreover have "py_replace s old new = [] @ new @ [x] @ new @ [y] @ new @ []"
    using s True by (simp add: py_replace_def)
  ultimately show ?thesis by blast
next
  case False
  have c3: "count_from old s = Suc (Suc (Suc 0))"
    using assms False by (simp add: py_count_def numeral_3_eq_3)
  from replace_from_next[OF False c3, of new] obtain a r1 where
    1: "s = a @ old @ r1" "count_from old r1 = Suc (Suc 0)"
       "replace_from old new s = a @ new @ replace_from old new r1" by blast
  from replace_from_next[OF False 1(2), of new] obtain b r2 where
    2: "r1 = b @ old @ r2" "count_from old r2 = Suc 0"
       "replace_from old new r1 = b @ new @ replace_from old new r2" by blast
  from replace_from_next[OF False 2(2), of new] obtain c d where
    3: "r2 = c @ old @ d" "count_from old d = 0"
       "replace_from old new r2 = c @ new @ replace_from old new d" by blast
  have "replace_from old new d = d" using 3(2) by (rule replace_from_none)
  then have "py_replace s old new = a @ new @ b @ new @ c @ new @ d"
    using False 1(3) 2(3) 3(3) by (simp add: py_replace_def)
  moreover have "s = a @ old @ b @ old @ c @ old @ d" using 1(1) 2(1) 3(1) by simp
  ultimately show ?thesis by blast
qed

lemma str_nat_3: "str_nat 3 = ''3''"
  by code_simp

text \<open>
  C9 as stated fails for a file with DOS line ends: its content holds the line end
  \<open>\r\n\<close> three times, but text mode reads every line end as \<open>\n\<close>, so the tool finds
  no occurrence and returns the error \<open>Text not found\<close>, with and without \<open>replace_all\<close>.
  It also fails when the write raises: on a full device the file in which \<open>foo\<close> occurs
  three times is truncated, and the tool returns an error result.
\<close>

theorem edit_file_line_ends_not_found:
  "crlf_fs (Path True [''ws'', ''a.txt'']) = Some (TextFile crlf_text)
   \<and> py_count crlf_text [CHR 0x0D, CHR 0x0A] = 3
   \<and> edit_file_execute text_io (lexical_resolve [''home'']) (crlf_arguments False) example_ctx crlf_fs
       = (Inr \<lparr>tr_success = False, tr_output = [],
               tr_error = Some (''Text not found in file: '' @ [CHR 0x27, CHR 0x0D, CHR 0x0A]
                                  @ ''...'' @ [CHR 0x27]),
               tr_metadata = []\<rparr>,
          crlf_fs)
   \<and> edit_file_execute text_io (lexical_resolve [''home'']) (crlf_arguments True) example_ctx crlf_fs
       = (Inr \<lparr>tr_success = False, tr_output = [],
               tr_error = Some (''Text not found in file: '' @ [CHR 0x27, CHR 0x0D, CHR 0x0A]
                                  @ ''...'' @ [CHR 0x27]),
               tr_metadata = []\<rparr>,
          crlf_fs)
   \<and> example_fs (Path True [''ws'', ''a.txt'']) = Some (TextFile ''foo bar foo baz foo'')
   \<and> py_count ''foo bar foo baz foo'' ''foo'' = 3
   \<and> edit_file_execute full_device_io (lexical_resolve [''home'']) (edit_arguments True)
        example_ctx example_fs
       = (Inr \<lparr>tr_success = False, tr_output = [],
               tr_error = Some ''[Errno 28] No space left on device'', tr_metadata = []\<rparr>,
          example_fs(Path True [''ws'', ''a.txt''] \<mapsto> TextFile []))"
proof -
  have three: "py_count crlf_text [CHR 0x0D, CHR 0x0A] = 3"
    unfolding crlf_text_def by code_simp
  have foo3: "py_count ''foo bar foo baz foo'' ''foo'' = 3"
    by code_simp
  have foo_in: "py_in ''foo'' ''foo bar foo baz foo''"
    by simp
  have node2: "example_fs (Path True [''ws'', ''a.txt'']) = Some (TextFile ''foo bar foo baz foo'')"
    by (simp add: example_fs_def)
  have allowed: "resolve_path (lexical_resolve [''home'']) example_ctx ''a.txt''
                   = Inr (Path True [''ws'', ''a.txt''])"
    by (simp add: resolve_path_def is_path_allowed_def example_ctx_def Path_of_def joinpath_def
        lexical_resolve_def is_relative_to_def Let_def)
  have node: "crlf_fs (Path True [''ws'', ''a.txt'']) = Some (TextFile crlf_text)"
    by (simp add: crlf_fs_def)
  have rd: "universal_newlines crlf_text
              = ''a'' @ [CHR 0x0A] @ ''b'' @ [CHR 0x0A] @ ''c'' @ [CHR 0x0A]"
    by (simp add: crlf_text_def)
  have absent: "\<not> py_in [CHR 0x0D, CHR 0x0A] (''a'' @ [CHR 0x0A] @ ''b'' @ [CHR 0x0A] @ ''c'' @ [CHR 0x0A])"
    by simp
  have run: "edit_file_execute text_io (lexical_resolve [''home'']) (crlf_arguments all) example_ctx crlf_fs
       = (Inr \<lparr>tr_success = False, tr_output = [],
               tr_error = Some (''Text not found in file: '' @ [CHR 0x27, CHR 0x0D, CHR 0x0A]
                                  @ ''...'' @ [CHR 0x27]),
               tr_metadata = []\<rparr>,
          crlf_fs)" for all
    using absent
    by (simp add: edit_file_execute_def crlf_arguments_def dict_get_def allowed text_io_def node rd
        error_result_def Let_def)
  have full: "edit_file_execute full_device_io (lexical_resolve [''home'']) (edit_arguments True)
        example_ctx example_fs
       = (Inr \<lparr>tr_success = False, tr_output = [],
               tr_error = Some ''[Errno 28] No space left on device'', tr_metadata = []\<rparr>,
          example_fs(Path True [''ws'', ''a.txt''] \<mapsto> TextFile []))"
    using foo_in
    by (simp add: edit_file_execute_def edit_arguments_def dict_get_def allowed full_device_io_def
        text_io_def node2 error_result_def truthy_def Let_def)
  show ?thesis using node three run node2 foo3 full by blast
qed

text \<open>
  C9, amended. The file exists under an allowed path, reading it succeeds, and
  \<open>old_string\<close> occurs three times in the text read (as \<open>str.count\<close> counts). Without
  \<open>replace_all\<close> the tool returns the error result that reports the count 3 and
  writes nothing. With \<open>replace_all\<close> it writes the text with each of the three
  occurrences replaced; when the write raises nothing it returns the success result
  with 3 replacements, and when the write raises it returns the error result with the
  text of the exception, in the world that the failed write has left.
\<close>

theorem edit_file_three_occurrences:
  assumes path: "dict_get arguments ''file_path'' = Some (JStr fp)"
    and old: "dict_get arguments ''old_string'' = Some (JStr old_string)"
    and new: "dict_get arguments ''new_string'' = Some (JStr new_string)"
    and allowed: "resolve_path resolve ctx fp = Inr p"
    and ex: "path_exists io p w = Inr True"
    and rd: "read_text io p w = Inr file_text"
    and three: "py_count file_text old_string = 3"
  shows "(let replace_all = truthy (case dict_get arguments ''replace_all'' of
                                      None \<Rightarrow> JBool False | Some v \<Rightarrow> v)
          in (\<not> replace_all \<longrightarrow>
                edit_file_execute io resolve arguments ctx w =
                  (Inr \<lparr>tr_success = False, tr_output = [],
                        tr_error =
                          Some ''Text found 3 times. Use replace_all=true or provide more context.'',
                        tr_metadata = []\<rparr>,
                   w))
           \<and> (replace_all \<longrightarrow>
                edit_file_execute io resolve arguments ctx w =
                  (case write_text io p (py_replace file_text old_string new_string) w of
                     (Some e, w1) \<Rightarrow>
                       (Inr \<lparr>tr_success = False, tr_output = [], tr_error = Some e,
                             tr_metadata = []\<rparr>,
                        w1)
                   | (None, w1) \<Rightarrow>
                       (Inr \<lparr>tr_success = True,
                             tr_output = ''Successfully made 3 replacement(s) in '' @ str_path p,
                             tr_error = None,
                             tr_metadata = [(''file_path'', JStr (str_path p)),
                                            (''replacements'', JInt 3)]\<rparr>,
                        w1))))
       \<and> (\<exists>a b c d. file_text = a @ old_string @ b @ old_string @ c @ old_string @ d
             \<and> py_replace file_text old_string new_string
                 = a @ new_string @ b @ new_string @ c @ new_string @ d)"
proof -
  have found: "py_in old_string file_text"
    using three by (intro py_count_in) simp
  have run: "(let replace_all = truthy (case dict_get arguments ''replace_all'' of
                                      None \<Rightarrow> JBool False | Some v \<Rightarrow> v)
          in (\<not> replace_all \<longrightarrow>
                edit_file_execute io resolve arguments ctx w =
                  (Inr \<lparr>tr_success = False, tr_output = [],
                        tr_error =
                          Some ''Text found 3 times. Use replace_all=true or provide more context.'',
                        tr_metadata = []\<rparr>,
                   w))
           \<and> (replace_all \<longrightarrow>
                edit_file_execute io resolve arguments ctx w =
                  (case write_text io p (py_replace file_text old_string new_string) w of
                     (Some e, w1) \<Rightarrow>
                       (Inr \<lparr>tr_success = False, tr_output = [], tr_error = Some e,
                             tr_metadata = []\<rparr>,
                        w1)
                   | (None, w1) \<Rightarrow>
                       (Inr \<lparr>tr_success = True,
                             tr_output = ''Successfully made 3 replacement(s) in '' @ str_path p,
                             tr_error = None,
                             tr_metadata = [(''file_path'', JStr (str_path p)),
                                            (''replacements'', JInt 3)]\<rparr>,
                        w1))))"
    using path old new allowed ex rd three found
    by (simp add: edit_file_execute_def Let_def str_nat_3 error_result_def success_result_def
        split: prod.splits option.splits)
  show ?thesis using run py_replace_three[OF three] by blast
qed

theorem edit_file_three_occurrences_witness:
  "py_count ''foo bar foo baz foo'' ''foo'' = 3
   \<and> edit_file_execute text_io (lexical_resolve [''home'']) (edit_arguments False) example_ctx
        example_fs
       = (Inr \<lparr>tr_success = False, tr_output = [],
               tr_error =
                 Some ''Text found 3 times. Use replace_all=true or provide more context.'',
               tr_metadata = []\<rparr>,
          example_fs)
   \<and> edit_file_execute text_io (lexical_resolve [''home'']) (edit_arguments True) example_ctx
        example_fs
       = (Inr \<lparr>tr_success = True,
               tr_output = ''Successfully made 3 replacement(s) in /ws/a.txt'',
               tr_error = None,
               tr_metadata = [(''file_path'', JStr ''/ws/a.txt''), (''replacements'', JInt 3)]\<rparr>,
          example_fs(Path True [''ws'', ''a.txt''] \<mapsto> TextFile ''qux bar qux baz qux''))
   \<and> edit_file_execute full_device_io (lexical_resolve [''home'']) (edit_arguments True)
        example_ctx example_fs
       = (Inr \<lparr>tr_success = False, tr_output = [],
               tr_error = Some ''[Errno 28] No space left on device'', tr_metadata = []\<rparr>,
          example_fs(Path True [''ws'', ''a.txt''] \<mapsto> TextFile []))"
proof -
  have three: "py_count ''foo bar foo baz foo'' ''foo'' = 3"
    by code_simp
  have rep: "py_replace ''foo bar foo baz foo'' ''foo'' ''qux'' = ''qux bar qux baz qux''"
    by code_simp
  have allowed: "resolve_path (lexical_resolve [''home'']) example_ctx ''a.txt''
                   = Inr (Path True [''ws'', ''a.txt''])"
    by (simp add: resolve_path_def is_path_allowed_def example_ctx_def Path_of_def joinpath_def
        lexical_resolve_def is_relative_to_def Let_def)
  have node: "example_fs (Path True [''ws'', ''a.txt'']) = Some (TextFile ''foo bar foo baz foo'')"
    by (simp add: example_fs_def)
  have ex: "path_exists text_io (Path True [''ws'', ''a.txt'']) example_fs = Inr True"
    by (simp add: text_io_def node)
  have rd: "read_text text_io (Path True [''ws'', ''a.txt'']) example_fs
              = Inr ''foo bar foo baz foo''"
    by (simp add: text_io_def node)
  have ex2: "path_exists full_device_io (Path True [''ws'', ''a.txt'']) example_fs = Inr True"
    by (simp add: full_device_io_def text_io_def node)
  have rd2: "read_text full_device_io (Path True [''ws'', ''a.txt'']) example_fs
              = Inr ''foo bar foo baz foo''"
    by (simp add: full_device_io_def text_io_def node)
  have sp: "str_path (Path True [''ws'', ''a.txt'']) = ''/ws/a.txt''"
    by (simp add: str_path_def)
  have f: "edit_file_execute text_io (lexical_resolve [''home'']) (edit_arguments False) example_ctx
        example_fs
       = (Inr \<lparr>tr_success = False, tr_output = [],
               tr_error =
                 Some ''Text found 3 times. Use replace_all=true or provide more context.'',
               tr_metadata = []\<rparr>,
          example_fs)"
    using edit_file_three_occurrences
            [of "edit_arguments False" "''a.txt''" "''foo''" "''qux''" "lexical_resolve [''home'']"
                example_ctx "Path True [''ws'', ''a.txt'']" text_io example_fs
                "''foo bar foo baz foo''",
             OF _ _ _ allowed ex rd three]
    by (simp add: edit_arguments_def dict_get_def truthy_def)
  have t: "edit_file_execute text_io (lexical_resolve [''home'']) (edit_arguments True) example_ctx
        example_fs
       = (Inr \<lparr>tr_success = True,
               tr_output = ''Successfully made 3 replacement(s) in /ws/a.txt'',
               tr_error = None,
               tr_metadata = [(''file_path'', JStr ''/ws/a.txt''), (''replacements'', JInt 3)]\<rparr>,
          example_fs(Path True [''ws'', ''a.txt''] \<mapsto> TextFile ''qux bar qux baz qux''))"
    using edit_file_three_occurrences
            [of "edit_arguments True" "''a.txt''" "''foo''" "''qux''" "lexical_resolve [''home'']"
                example_ctx "Path True [''ws'', ''a.txt'']" text_io example_fs
                "''foo bar foo baz foo''",
             OF _ _ _ allowed ex rd three]
    by (simp add: edit_arguments_def dict_get_def truthy_def rep sp text_io_def node)
  have u: "edit_file_execute full_device_io (lexical_resolve [''home'']) (edit_arguments True)
        example_ctx example_fs
       = (Inr \<lparr>tr_success = False, tr_output = [],
               tr_error = Some ''[Errno 28] No space left on device'', tr_metadata = []\<rparr>,
          example_fs(Path True [''ws'', ''a.txt''] \<mapsto> TextFile []))"
    using edit_file_three_occurrences
            [of "edit_arguments True" "''a.txt''" "''foo''" "''qux''" "lexical_resolve [''home'']"
                example_ctx "Path True [''ws'', ''a.txt'']" full_device_io example_fs
                "''foo bar foo baz foo''",
             OF _ _ _ allowed ex2 rd2 three]
    by (simp add: edit_arguments_def dict_get_def truthy_def rep sp full_device_io_def)
  show ?thesis using three f t u by blast
qed

end
